theory Spec2Isabelle
  imports Main "HOL-Library.Sublist"
begin

section \<open>Python values and exceptions\<close>

text \<open>
  The values Python's JSON decoder and the ASN.1 decoder hand to the code. Dictionaries
  keep their keys in order; every key in the formats at hand is a string.
\<close>

datatype pyval =
    PNone
  | PBool bool
  | PInt int
  | PStr string
  | PBytes string
  | PList "pyval list"
  | PTuple "pyval list"
  | PDict "(string \<times> pyval) list"

text \<open>
  What the HTTP transport raises by itself (httpx.ConnectError, httpx.ReadTimeout, and
  every other transport exception, for instance httpx.ConnectTimeout or a protocol
  error). An HTTPStatusError is only ever raised by \<open>raise_for_status\<close>.
\<close>

datatype net_error = ConnectError | ReadTimeout | OtherTransportError

datatype exn =
    HTTPStatusError nat
  | NetError net_error
  | JSONDecodeError
  | TypeError
  | KeyError
  | AttributeError
  | IndexError
  | FileNotFoundError
  | ASN1DecodeError
  | OtherError

section \<open>The rate-limited client (downloader/client.py)\<close>

definition MAX_RETRIES :: nat where
  "MAX_RETRIES = 10"

text \<open>\<open>response.raise_for_status()\<close> passes exactly on a 2xx status.\<close>

definition is_success :: "nat \<Rightarrow> bool" where
  "is_success st = (200 \<le> st \<and> st < 300)"

text \<open>
  A file path is the list of its components; the file system maps the paths of regular
  files to their bytes. Directories are not represented (\<open>mkdir(parents=True)\<close>
  has no effect on this view).
\<close>

type_synonym path = "string list"

type_synonym fs = "path \<Rightarrow> string option"

text \<open>
  What the client leaves behind: the files, the seconds passed to \<open>asyncio.sleep\<close>
  by the retry loops (in order), and the number of requests issued (each one after
  acquiring a token from the rate limiter).
\<close>

record world =
  files :: fs
  slept :: "nat list"
  requests :: nat

text \<open>
  The server's answer to one \<open>client.get(url)\<close>: a response with its status and
  its body as \<open>response.json()\<close> reads it (\<open>None\<close>: not JSON), or a transport
  exception.
\<close>

datatype get_outcome = GetResponse nat "pyval option" | GetRaises net_error

text \<open>The body of the \<open>try\<close> of \<open>fetch_json\<close>: what it returns or raises.\<close>

fun fetch_json_try :: "get_outcome \<Rightarrow> exn + pyval" where
  "fetch_json_try (GetRaises e) = Inl (NetError e)"
| "fetch_json_try (GetResponse st body) =
     (if st = 404 then Inr PNone
      else if \<not> is_success st then Inl (HTTPStatusError st)
      else (case body of None \<Rightarrow> Inl JSONDecodeError | Some j \<Rightarrow> Inr j))"

text \<open>
  \<open>for attempt in range(MAX_RETRIES)\<close>: \<open>attempt\<close> is the loop variable, the third
  argument the number of iterations left. \<open>net k\<close> is the server's answer to attempt
  \<open>k\<close>.
\<close>

fun fetch_json_loop ::
  "(nat \<Rightarrow> get_outcome) \<Rightarrow> nat \<Rightarrow> nat \<Rightarrow> world \<Rightarrow> (exn + pyval) \<times> world" where
  "fetch_json_loop net attempt 0 w = (Inr PNone, w)"
| "fetch_json_loop net attempt (Suc n) w =
     (let w1 = w\<lparr>requests := requests w + 1\<rparr> in
      case fetch_json_try (net attempt) of
        Inr r \<Rightarrow> (Inr r, w1)
      | Inl (HTTPStatusError st) \<Rightarrow>
          if st = 429 then
            fetch_json_loop net (attempt + 1) n (w1\<lparr>slept := slept w1 @ [2 ^ attempt]\<rparr>)
          else if attempt = MAX_RETRIES - 1 then (Inl (HTTPStatusError st), w1)
          else fetch_json_loop net (attempt + 1) n w1
      | Inl (NetError e) \<Rightarrow>
          if e = ConnectError \<or> e = ReadTimeout then
            fetch_json_loop net (attempt + 1) n
              (w1\<lparr>slept := slept w1 @ [min (2 ^ attempt) 30]\<rparr>)
          else (Inl (NetError e), w1)
      | Inl e \<Rightarrow> (Inl e, w1))"

definition fetch_json :: "(nat \<Rightarrow> get_outcome) \<Rightarrow> world \<Rightarrow> (exn + pyval) \<times> world" where
  "fetch_json net w = fetch_json_loop net 0 MAX_RETRIES w"

text \<open>
  The server's answer to one \<open>client.stream("GET", url)\<close>: a response with its
  status, the chunks \<open>aiter_bytes\<close> delivers and, when the stream breaks after them,
  the transport exception; or a transport exception before any response.
\<close>

datatype stream_outcome =
    StreamResponse nat "string list" "net_error option"
  | StreamRaises net_error

text \<open>
  The body of the \<open>try\<close> of \<open>download_file\<close>. \<open>open(dest, "wb")\<close> creates or
  truncates the destination itself; every chunk received is written to it.
\<close>

fun download_try :: "stream_outcome \<Rightarrow> path \<Rightarrow> fs \<Rightarrow> (exn + bool) \<times> fs" where
  "download_try (StreamRaises e) dest f = (Inl (NetError e), f)"
| "download_try (StreamResponse st chunks broken) dest f =
     (if st = 404 then (Inr False, f)
      else if \<not> is_success st then (Inl (HTTPStatusError st), f)
      else (case broken of
              None \<Rightarrow> (Inr True, f(dest \<mapsto> concat chunks))
            | Some e \<Rightarrow> (Inl (NetError e), f(dest \<mapsto> concat chunks))))"

text \<open>\<open>if dest.exists(): dest.unlink()\<close>\<close>

definition unlink_if_exists :: "path \<Rightarrow> fs \<Rightarrow> fs" where
  "unlink_if_exists dest f = f(dest := None)"

fun download_loop ::
  "(nat \<Rightarrow> stream_outcome) \<Rightarrow> path \<Rightarrow> nat \<Rightarrow> nat \<Rightarrow> world \<Rightarrow> (exn + bool) \<times> world" where
  "download_loop net dest attempt 0 w = (Inr False, w)"
| "download_loop net dest attempt (Suc n) w =
     (let w1 = w\<lparr>requests := requests w + 1\<rparr> in
      case download_try (net attempt) dest (files w1) of
        (Inr ok, f) \<Rightarrow> (Inr ok, w1\<lparr>files := f\<rparr>)
      | (Inl (HTTPStatusError st), f) \<Rightarrow>
          if st = 429 then
            download_loop net dest (attempt + 1) n
              (w1\<lparr>files := f, slept := slept w1 @ [2 ^ attempt]\<rparr>)
          else if attempt = MAX_RETRIES - 1 then
            (Inr False, w1\<lparr>files := unlink_if_exists dest f\<rparr>)
          else download_loop net dest (attempt + 1) n (w1\<lparr>files := unlink_if_exists dest f\<rparr>)
      | (Inl (NetError e), f) \<Rightarrow>
          if e = ConnectError \<or> e = ReadTimeout then
            download_loop net dest (attempt + 1) n
              (w1\<lparr>files := unlink_if_exists dest f, slept := slept w1 @ [min (2 ^ attempt) 30]\<rparr>)
          else (Inl (NetError e), w1\<lparr>files := unlink_if_exists dest f\<rparr>)
      | (Inl e, f) \<Rightarrow> (Inl e, w1\<lparr>files := unlink_if_exists dest f\<rparr>))"

text \<open>\<open>dest.exists() and dest.stat().st_size > 0\<close>\<close>

definition exists_nonempty :: "fs \<Rightarrow> path \<Rightarrow> bool" where
  "exists_nonempty f p = (case f p of None \<Rightarrow> False | Some b \<Rightarrow> 0 < length b)"

definition download_file ::
  "(nat \<Rightarrow> stream_outcome) \<Rightarrow> path \<Rightarrow> bool \<Rightarrow> world \<Rightarrow> (exn + bool) \<times> world" where
  "download_file net dest skip_existing w =
     (if skip_existing \<and> exists_nonempty (files w) dest then (Inr True, w)
      else download_loop net dest 0 MAX_RETRIES w)"

text \<open>
  The wait the retry loops put after a failed attempt \<open>k\<close>, read off the two
  \<open>except\<close> clauses: \<open>2 ** attempt\<close> after an HTTP 429, \<open>min(2 ** attempt, 30)\<close>
  after a connection error or a read timeout, and none after any other failure.
\<close>

definition retry_wait :: "exn + 'a \<Rightarrow> nat \<Rightarrow> nat option" where
  "retry_wait r k =
     (case r of
        Inl (HTTPStatusError st) \<Rightarrow> if st = 429 then Some (2 ^ k) else None
      | Inl (NetError e) \<Rightarrow>
          if e = ConnectError \<or> e = ReadTimeout then Some (min (2 ^ k) 30) else None
      | _ \<Rightarrow> None)"

definition world0 :: world where
  "world0 = \<lparr>files = Map.empty, slept = [], requests = 0\<rparr>"

subsection \<open>Properties of the retry loops\<close>

lemma fetch_json_loop_requests:
  "requests w \<le> requests (snd (fetch_json_loop net a n w))"
proof (induction n arbitrary: a w)
  case 0
  then show ?case by simp
next
  case (Suc n)
  have s1: "\<And>a' w'. requests w' = requests w + 1 \<Longrightarrow>
      requests w \<le> requests (snd (fetch_json_loop net a' n w'))"
    using Suc.IH le_trans by (metis le_add1)
  show ?case
    by (auto simp: Let_def s1 split: sum.splits exn.splits)
qed

lemma fetch_json_loop_slept:
  "slept (snd (fetch_json_loop net a n w)) =
     slept w @ List.map_filter (\<lambda>k. retry_wait (fetch_json_try (net k)) k)
       [a..<a + (requests (snd (fetch_json_loop net a n w)) - requests w)]"
proof (induction n arbitrary: a w)
  case 0
  then show ?case by simp
next
  case (Suc n)
  let ?f = "\<lambda>k. retry_wait (fetch_json_try (net k)) k"
  have cont: "slept (snd (fetch_json_loop net (Suc a) n w')) =
      slept w @ List.map_filter ?f
        [a..<a + (requests (snd (fetch_json_loop net (Suc a) n w')) - requests w)]"
    if rq: "requests w' = requests w + 1"
      and sl: "slept w' = slept w @ (case ?f a of None \<Rightarrow> [] | Some x \<Rightarrow> [x])" for w'
  proof -
    let ?w2 = "snd (fetch_json_loop net (Suc a) n w')"
    have le: "requests w' \<le> requests ?w2" by (rule fetch_json_loop_requests)
    have "requests ?w2 - requests w = Suc (requests ?w2 - requests w')" using le rq by simp
    then have "[a..<a + (requests ?w2 - requests w)] =
        a # [Suc a..<Suc a + (requests ?w2 - requests w')]"
      by (simp add: upt_conv_Cons)
    then show ?thesis
      using Suc.IH[of "Suc a" w'] sl by (simp split: option.splits)
  qed
  show ?case
  proof (cases "fetch_json_try (net a)")
    case (Inr r)
    then show ?thesis by (simp add: Let_def retry_wait_def)
  next
    case (Inl e)
    then show ?thesis
      by (cases e) (auto simp: Let_def retry_wait_def cont)
  qed
qed


lemma download_try_result_indep:
  "fst (download_try out dest f) = fst (download_try out dest g)"
  by (cases out) (auto split: option.splits)

lemma download_loop_requests:
  "requests w \<le> requests (snd (download_loop net dest a n w))"
proof (induction n arbitrary: a w)
  case 0
  then show ?case by simp
next
  case (Suc n)
  have s1: "\<And>a' w'. requests w' = requests w + 1 \<Longrightarrow>
      requests w \<le> requests (snd (download_loop net dest a' n w'))"
    using Suc.IH le_trans by (metis le_add1)
  show ?case
    by (auto simp: Let_def s1 split: sum.splits exn.splits prod.splits)
qed

lemma download_loop_slept:
  "slept (snd (download_loop net dest a n w)) =
     slept w @ List.map_filter (\<lambda>k. retry_wait (fst (download_try (net k) dest g)) k)
       [a..<a + (requests (snd (download_loop net dest a n w)) - requests w)]"
proof (induction n arbitrary: a w)
  case 0
  then show ?case by simp
next
  case (Suc n)
  let ?f = "\<lambda>k. retry_wait (fst (download_try (net k) dest g)) k"
  let ?w1 = "w\<lparr>requests := requests w + 1\<rparr>"
  have cont: "slept (snd (download_loop net dest (Suc a) n w')) =
      slept w @ List.map_filter ?f
        [a..<a + (requests (snd (download_loop net dest (Suc a) n w')) - requests w)]"
    if rq: "requests w' = requests w + 1"
      and sl: "slept w' = slept w @ (case ?f a of None \<Rightarrow> [] | Some x \<Rightarrow> [x])" for w'
  proof -
    let ?w2 = "snd (download_loop net dest (Suc a) n w')"
    have le: "requests w' \<le> requests ?w2" by (rule download_loop_requests)
    have "requests ?w2 - requests w = Suc (requests ?w2 - requests w')" using le rq by simp
    then have "[a..<a + (requests ?w2 - requests w)] =
        a # [Suc a..<Suc a + (requests ?w2 - requests w')]"
      by (simp add: upt_conv_Cons)
    then show ?thesis
      using Suc.IH[of "Suc a" w'] sl by (simp split: option.splits)
  qed
  obtain r f' where tr: "download_try (net a) dest (files ?w1) = (r, f')"
    by (cases "download_try (net a) dest (files ?w1)") auto
  then have r: "fst (download_try (net a) dest g) = r"
    using download_try_result_indep[of "net a" dest g "files ?w1"] by simp
  show ?case
  proof (cases r)
    case (Inr ok)
    then show ?thesis using tr r by (simp add: Let_def retry_wait_def)
  next
    case (Inl e)
    then show ?thesis using tr r
      by (cases e) (auto simp: Let_def retry_wait_def cont)
  qed
qed



subsection \<open>Backoff between attempts\<close>

text \<open>
  Claim C9, as the code has it. In both \<open>fetch_json\<close> and \<open>download_file\<close> the
  seconds slept are, in order, one wait for each attempt \<open>k\<close> made that failed with
  HTTP 429 (exactly \<open>2 ^ k\<close> seconds, with no cap) or with a connection error or read
  timeout (exactly \<open>min (2 ^ k) 30\<close> seconds), and nothing else: no other failure
  waits.
\<close>

theorem retry_backoff_waits:
  "slept (snd (fetch_json jnet w)) =
     slept w @ List.map_filter (\<lambda>k. retry_wait (fetch_json_try (jnet k)) k)
       [0..<requests (snd (fetch_json jnet w)) - requests w]
   \<and> slept (snd (download_file snet dest skip w)) =
     slept w @ List.map_filter (\<lambda>k. retry_wait (fst (download_try (snet k) dest (files w))) k)
       [0..<requests (snd (download_file snet dest skip w)) - requests w]"
proof
  show "slept (snd (fetch_json jnet w)) =
     slept w @ List.map_filter (\<lambda>k. retry_wait (fetch_json_try (jnet k)) k)
       [0..<requests (snd (fetch_json jnet w)) - requests w]"
    unfolding fetch_json_def using fetch_json_loop_slept[of jnet 0 MAX_RETRIES w] by simp
  show "slept (snd (download_file snet dest skip w)) =
     slept w @ List.map_filter (\<lambda>k. retry_wait (fst (download_try (snet k) dest (files w))) k)
       [0..<requests (snd (download_file snet dest skip w)) - requests w]"
  proof (cases "skip \<and> exists_nonempty (files w) dest")
    case True
    then show ?thesis by (simp add: download_file_def)
  next
    case False
    then show ?thesis
      using download_loop_slept[of snet dest 0 MAX_RETRIES w "files w"]
      by (simp add: download_file_def)
  qed
qed

text \<open>
  The claim as stated (one fixed cap for both kinds of failure) fails at attempt 5: after
  an HTTP 429 the client sleeps 32 seconds, after a read timeout 30 seconds, in
  \<open>fetch_json\<close> and in \<open>download_file\<close> alike. No cap \<open>c\<close> gives
  \<open>min (2 ^ 5) c = 32\<close> and \<open>min (2 ^ 5) c = 30\<close>.
\<close>

theorem backoff_single_cap_counterexample:
  "slept (snd (fetch_json (\<lambda>k. GetResponse 429 None) world0)) ! 5 = 32
   \<and> slept (snd (fetch_json (\<lambda>k. GetRaises ReadTimeout) world0)) ! 5 = 30
   \<and> slept (snd (download_file (\<lambda>k. StreamResponse 429 [] None) [''raw'', ''x.bu''] True world0)) ! 5 = 32
   \<and> slept (snd (download_file (\<lambda>k. StreamRaises ReadTimeout) [''raw'', ''x.bu''] True world0)) ! 5 = 30"
  by (simp add: fetch_json_def download_file_def MAX_RETRIES_def world0_def eval_nat_numeral
      is_success_def exists_nonempty_def unlink_if_exists_def)

subsection \<open>Partial files\<close>





section \<open>Python operations on decoded values\<close>

text \<open>Truth value of an object, as \<open>if x:\<close> and \<open>not x\<close> read it.\<close>

fun truthy :: "pyval \<Rightarrow> bool" where
  "truthy PNone = False"
| "truthy (PBool b) = b"
| "truthy (PInt i) = (i \<noteq> 0)"
| "truthy (PStr s) = (s \<noteq> [])"
| "truthy (PBytes s) = (s \<noteq> [])"
| "truthy (PList xs) = (xs \<noteq> [])"
| "truthy (PTuple xs) = (xs \<noteq> [])"
| "truthy (PDict kvs) = (kvs \<noteq> [])"

text \<open>\<open>x.get(k, d)\<close>: only a dict has the method.\<close>

fun py_get :: "pyval \<Rightarrow> string \<Rightarrow> pyval \<Rightarrow> exn + pyval" where
  "py_get (PDict kvs) k d = Inr (case map_of kvs k of None \<Rightarrow> d | Some v \<Rightarrow> v)"
| "py_get _ k d = Inl AttributeError"

text \<open>\<open>k in x\<close> for a string \<open>k\<close>.\<close>

fun py_contains :: "string \<Rightarrow> pyval \<Rightarrow> exn + bool" where
  "py_contains k (PDict kvs) = Inr (map_of kvs k \<noteq> None)"
| "py_contains k (PList xs) = Inr (PStr k \<in> set xs)"
| "py_contains k (PTuple xs) = Inr (PStr k \<in> set xs)"
| "py_contains k (PStr s) = Inr (sublist k s)"
| "py_contains k _ = Inl TypeError"

text \<open>\<open>x[k]\<close> for a string \<open>k\<close>.\<close>

fun py_getitem :: "pyval \<Rightarrow> string \<Rightarrow> exn + pyval" where
  "py_getitem (PDict kvs) k = (case map_of kvs k of None \<Rightarrow> Inl KeyError | Some v \<Rightarrow> Inr v)"
| "py_getitem _ k = Inl TypeError"

text \<open>The elements a \<open>for\<close> loop over the value visits.\<close>

fun py_iter :: "pyval \<Rightarrow> exn + pyval list" where
  "py_iter (PList xs) = Inr xs"
| "py_iter (PTuple xs) = Inr xs"
| "py_iter (PDict kvs) = Inr (map (\<lambda>kv. PStr (fst kv)) kvs)"
| "py_iter (PStr s) = Inr (map (\<lambda>c. PStr [c]) s)"
| "py_iter (PBytes s) = Inr (map (\<lambda>c. PInt (of_char c)) s)"
| "py_iter _ = Inl TypeError"

text \<open>A list comprehension whose element expression may raise.\<close>

fun collect :: "('a \<Rightarrow> exn + 'b) \<Rightarrow> 'a list \<Rightarrow> exn + 'b list" where
  "collect f [] = Inr []"
| "collect f (x # xs) =
     (case f x of
        Inl e \<Rightarrow> Inl e
      | Inr y \<Rightarrow> (case collect f xs of Inl e \<Rightarrow> Inl e | Inr ys \<Rightarrow> Inr (y # ys)))"

text \<open>Decimal digits of an integer, as \<open>str\<close> and an f-string print it.\<close>

function str_nat :: "nat \<Rightarrow> string" where
  "str_nat n =
     (if n < 10 then [char_of (48 + n)]
      else str_nat (n div 10) @ [char_of (48 + n mod 10)])"
  by pat_completeness auto
termination
  by (relation "measure id") auto

declare str_nat.simps [simp del]

definition str_int :: "int \<Rightarrow> string" where
  "str_int i = (if i < 0 then ''-'' @ str_nat (nat (- i)) else str_nat (nat i))"

fun join :: "string \<Rightarrow> string list \<Rightarrow> string" where
  "join sep [] = []"
| "join sep [x] = x"
| "join sep (x # y # ys) = x @ sep @ join sep (y # ys)"

text \<open>
  \<open>repr\<close> and \<open>str\<close> of a value. A string inside a container is printed between
  single quotes without Python's escaping, which coincides with Python for strings
  without quotes, backslashes and control characters.
\<close>

primrec py_repr :: "pyval \<Rightarrow> string" where
  "py_repr PNone = ''None''"
| "py_repr (PBool b) = (if b then ''True'' else ''False'')"
| "py_repr (PInt i) = str_int i"
| "py_repr (PStr s) = [CHR 0x27] @ s @ [CHR 0x27]"
| "py_repr (PBytes s) = ''b'' @ [CHR 0x27] @ s @ [CHR 0x27]"
| "py_repr (PList xs) = ''['' @ join '', '' (map py_repr xs) @ '']''"
| "py_repr (PTuple xs) =
     (if length xs = 1 then ''('' @ join '', '' (map py_repr xs) @ '',)''
      else ''('' @ join '', '' (map py_repr xs) @ '')'')"
| "py_repr (PDict kvs) =
     ''{'' @ join '', ''
        (map (\<lambda>kv. [CHR 0x27] @ fst kv @ [CHR 0x27] @ '': '' @ snd kv) (map (map_prod id py_repr) kvs))
      @ ''}''"

definition py_str :: "pyval \<Rightarrow> string" where
  "py_str v = (case v of PStr s \<Rightarrow> s | _ \<Rightarrow> py_repr v)"

text \<open>\<open>str.lower\<close> on ASCII letters.\<close>

definition lower_char :: "char \<Rightarrow> char" where
  "lower_char c =
     (let n = (of_char c :: nat) in if 65 \<le> n \<and> n \<le> 90 then char_of (n + 32) else c)"

definition lower :: "string \<Rightarrow> string" where
  "lower s = map lower_char s"

section \<open>The resource navigator (downloader/tse\_api.py)\<close>

definition TSE_BASE_URL :: string where
  "TSE_BASE_URL = ''https://resultados.tse.jus.br/oficial''"

record Section =
  uf :: string
  municipio_codigo :: string
  municipio_nome :: string
  zona :: string
  secao :: string

text \<open>
  \<open>UrnaMeta\<close>: one hash group of a section's manifest. The dataclass does not check its
  fields, so they hold whatever the JSON held.
\<close>

record UrnaMeta =
  um_section :: Section
  um_hash :: pyval
  um_status :: pyval
  um_data :: pyval
  um_hora :: pyval
  um_arquivos :: pyval

definition section_meta_url :: "string \<Rightarrow> string \<Rightarrow> Section \<Rightarrow> string" where
  "section_meta_url ciclo pleito section =
     (let u = lower (uf section); mun = municipio_codigo section;
          z = zona section; sc = secao section
      in TSE_BASE_URL @ ''/'' @ ciclo @ ''/arquivo-urna/'' @ pleito
         @ ''/dados/'' @ u @ ''/'' @ mun @ ''/'' @ z @ ''/'' @ sc
         @ ''/p000'' @ pleito @ ''-'' @ u @ ''-m'' @ mun @ ''-z'' @ z @ ''-s'' @ sc @ ''-aux.json'')"

text \<open>\<open>a["nm"] if isinstance(a, dict) else a\<close>\<close>

fun arq_name :: "pyval \<Rightarrow> exn + pyval" where
  "arq_name (PDict kvs) = (case map_of kvs ''nm'' of None \<Rightarrow> Inl KeyError | Some v \<Rightarrow> Inr v)"
| "arq_name a = Inr a"

text \<open>The file names of a hash group \<open>h\<close> (a dict): V1 has \<open>nmarq\<close>, V2 has \<open>arq\<close>.\<close>

definition entry_arquivos :: "(string \<times> pyval) list \<Rightarrow> exn + pyval" where
  "entry_arquivos kvs =
     (case map_of kvs ''nmarq'' of
        Some v \<Rightarrow> Inr v
      | None \<Rightarrow>
          (case map_of kvs ''arq'' of
             Some v \<Rightarrow>
               (case py_iter v of
                  Inl e \<Rightarrow> Inl e
                | Inr as \<Rightarrow> (case collect arq_name as of Inl e \<Rightarrow> Inl e | Inr ns \<Rightarrow> Inr (PList ns)))
           | None \<Rightarrow> Inr (PList [])))"

text \<open>
  The loop \<open>for h in data["hashes"]\<close>: an entry whose hash is \<open>"0"\<close> or falsy (empty,
  null, missing) is skipped before anything else of it is read.
\<close>

fun meta_entries :: "Section \<Rightarrow> pyval list \<Rightarrow> exn + UrnaMeta list" where
  "meta_entries section [] = Inr []"
| "meta_entries section (h # hs) =
     (case py_get h ''hash'' (PStr []) of
        Inl e \<Rightarrow> Inl e
      | Inr hash_val \<Rightarrow>
          if hash_val = PStr ''0'' \<or> \<not> truthy hash_val then meta_entries section hs
          else
            (case h of
               PDict kvs \<Rightarrow>
                 (case entry_arquivos kvs of
                    Inl e \<Rightarrow> Inl e
                  | Inr arquivos \<Rightarrow>
                      (case meta_entries section hs of
                         Inl e \<Rightarrow> Inl e
                       | Inr rest \<Rightarrow>
                           Inr (\<lparr>um_section = section, um_hash = hash_val,
                                 um_status = (case map_of kvs ''st'' of None \<Rightarrow> PStr [] | Some v \<Rightarrow> v),
                                 um_data = (case map_of kvs ''dr'' of None \<Rightarrow> PStr [] | Some v \<Rightarrow> v),
                                 um_hora = (case map_of kvs ''hr'' of None \<Rightarrow> PStr [] | Some v \<Rightarrow> v),
                                 um_arquivos = arquivos\<rparr> # rest)))
             | _ \<Rightarrow> Inl AttributeError))"

text \<open>
  \<open>get_section_meta\<close>. \<open>fetch url\<close> is what \<open>client.fetch_json(url)\<close> returns or
  raises.
\<close>

definition get_section_meta ::
  "(string \<Rightarrow> exn + pyval) \<Rightarrow> string \<Rightarrow> string \<Rightarrow> Section \<Rightarrow> exn + UrnaMeta list" where
  "get_section_meta fetch ciclo pleito section =
     (case fetch (section_meta_url ciclo pleito section) of
        Inl e \<Rightarrow> Inl e
      | Inr data \<Rightarrow>
          if \<not> truthy data then Inr []
          else
            (case py_contains ''hashes'' data of
               Inl e \<Rightarrow> Inl e
             | Inr has \<Rightarrow>
                 if \<not> has then Inr []
                 else
                   (case py_getitem data ''hashes'' of
                      Inl e \<Rightarrow> Inl e
                    | Inr hs \<Rightarrow>
                        (case py_iter hs of
                           Inl e \<Rightarrow> Inl e
                         | Inr entries \<Rightarrow> meta_entries section entries))))"

definition build_file_url ::
  "string \<Rightarrow> string \<Rightarrow> Section \<Rightarrow> pyval \<Rightarrow> pyval \<Rightarrow> string" where
  "build_file_url ciclo pleito section hash_val filename =
     TSE_BASE_URL @ ''/'' @ ciclo @ ''/arquivo-urna/'' @ pleito
       @ ''/dados/'' @ lower (uf section) @ ''/'' @ municipio_codigo section @ ''/'' @ zona section
       @ ''/'' @ secao section @ ''/'' @ py_str hash_val @ ''/'' @ py_str filename"

section \<open>The download orchestrator (downloader/manager.py)\<close>

text \<open>
  The orchestrator awaits two calls of the client. They are represented by their
  outcomes: \<open>fetch url\<close> is what \<open>client.fetch_json(url)\<close> returns or raises, and
  \<open>dl url dest\<close> is what \<open>client.download_file(url, dest)\<close> returns or raises,
  together with whether \<open>dest\<close> exists afterwards (the orchestrator asks
  \<open>dest.exists()\<close>). \<open>on_section_done\<close> says whether a completion callback is
  installed.
\<close>

record env =
  fetch :: "string \<Rightarrow> exn + pyval"
  dl :: "string \<Rightarrow> path \<Rightarrow> exn + bool \<times> bool"
  raw_dir :: path
  on_section_done :: bool

text \<open>
  \<open>self._stats\<close>, with two logs of the orchestrator's effects: the download calls
  issued, as (url, dest), and the completion callbacks invoked, as (section directory,
  pleito). An exception of the callback is caught and logged at debug level only.
\<close>

record manager =
  downloaded :: nat
  skipped :: nat
  errors :: nat
  sections_processed :: nat
  attempts :: "(string \<times> path) list"
  callbacks :: "(path \<times> string) list"

definition manager0 :: manager where
  "manager0 = \<lparr>downloaded = 0, skipped = 0, errors = 0, sections_processed = 0,
               attempts = [], callbacks = []\<rparr>"

definition section_dir :: "path \<Rightarrow> Section \<Rightarrow> path" where
  "section_dir rd section =
     rd @ [lower (uf section), municipio_codigo section, zona section, secao section]"

record dl_results =
  res_ok :: nat
  res_skip :: nat
  res_fail :: nat

text \<open>
  The file type filter: \<open>any(filename.endswith(ft) ...)\<close>, and when that fails
  \<open>any(ft in filename ...)\<close>. No filter (\<open>None\<close> or an empty list) lets every file
  through.
\<close>

definition wanted :: "string list option \<Rightarrow> string \<Rightarrow> bool" where
  "wanted file_types filename =
     (case file_types of
        None \<Rightarrow> True
      | Some fts \<Rightarrow>
          fts = [] \<or> list_ex (\<lambda>ft. suffix ft filename) fts \<or> list_ex (\<lambda>ft. sublist ft filename) fts)"

text \<open>
  The loop of \<open>download_section_files\<close> over \<open>urna.arquivos\<close>. A file name that is not
  a string raises where the code first uses it as one: in \<open>filename.endswith\<close> when a
  filter is set, else in \<open>dest_dir / filename\<close>. An exception leaves the loop with the
  counts of this hash group lost.
\<close>

fun download_files ::
  "env \<Rightarrow> string \<Rightarrow> string \<Rightarrow> UrnaMeta \<Rightarrow> string list option \<Rightarrow> pyval list \<Rightarrow>
   dl_results \<Rightarrow> (string \<times> path) list \<Rightarrow> (exn + dl_results) \<times> (string \<times> path) list" where
  "download_files E ciclo pleito urna file_types [] res att = (Inr res, att)"
| "download_files E ciclo pleito urna file_types (filename # rest) res att =
     (case filename of
        PStr name \<Rightarrow>
          if wanted file_types name then
            (let url = build_file_url ciclo pleito (um_section urna) (um_hash urna) filename;
                 dest = section_dir (raw_dir E) (um_section urna) @ [name]
             in case dl E url dest of
                  Inl e \<Rightarrow> (Inl e, att @ [(url, dest)])
                | Inr (ok, ex) \<Rightarrow>
                    download_files E ciclo pleito urna file_types rest
                      (if ok then
                         (if ex then res\<lparr>res_ok := res_ok res + 1\<rparr>
                          else res\<lparr>res_skip := res_skip res + 1\<rparr>)
                       else res\<lparr>res_fail := res_fail res + 1\<rparr>)
                      (att @ [(url, dest)]))
          else download_files E ciclo pleito urna file_types rest res att
      | PBytes b \<Rightarrow> (Inl TypeError, att)
      | _ \<Rightarrow>
          (if file_types = None \<or> file_types = Some [] then Inl TypeError
           else Inl AttributeError, att))"

definition download_section_files ::
  "env \<Rightarrow> string \<Rightarrow> string \<Rightarrow> UrnaMeta \<Rightarrow> string list option \<Rightarrow>
   (string \<times> path) list \<Rightarrow> (exn + dl_results) \<times> (string \<times> path) list" where
  "download_section_files E ciclo pleito urna file_types att =
     (case py_iter (um_arquivos urna) of
        Inl e \<Rightarrow> (Inl e, att)
      | Inr filenames \<Rightarrow>
          download_files E ciclo pleito urna file_types filenames
            \<lparr>res_ok = 0, res_skip = 0, res_fail = 0\<rparr> att)"

text \<open>
  \<open>for urna in urnas\<close> inside the \<open>try\<close> of \<open>_process_one_section\<close>: the counts of
  each hash group are added to the stats as soon as the group is done. The result says
  whether the loop raised, and gives the state at that point.
\<close>

fun process_urnas ::
  "env \<Rightarrow> string \<Rightarrow> string \<Rightarrow> string list option \<Rightarrow> UrnaMeta list \<Rightarrow> manager \<Rightarrow>
   exn option \<times> manager" where
  "process_urnas E ciclo pleito file_types [] m = (None, m)"
| "process_urnas E ciclo pleito file_types (urna # urnas) m =
     (case download_section_files E ciclo pleito urna file_types (attempts m) of
        (Inl e, att) \<Rightarrow> (Some e, m\<lparr>attempts := att\<rparr>)
      | (Inr res, att) \<Rightarrow>
          process_urnas E ciclo pleito file_types urnas
            (m\<lparr>downloaded := downloaded m + res_ok res,
               skipped := skipped m + res_skip res,
               errors := errors m + res_fail res,
               attempts := att\<rparr>))"

text \<open>
  \<open>_process_one_section\<close>: the \<open>try\<close> around the manifest fetch, the downloads and the
  callback, and its \<open>except Exception\<close>, which counts one error.
\<close>

definition process_one_section ::
  "env \<Rightarrow> string \<Rightarrow> string \<Rightarrow> string list option \<Rightarrow> Section \<Rightarrow> manager \<Rightarrow> manager" where
  "process_one_section E ciclo pleito file_types section m =
     (case get_section_meta (fetch E) ciclo pleito section of
        Inl e \<Rightarrow> m\<lparr>errors := errors m + 1\<rparr>
      | Inr urnas \<Rightarrow>
          (case process_urnas E ciclo pleito file_types urnas m of
             (Some e, m') \<Rightarrow> m'\<lparr>errors := errors m' + 1\<rparr>
           | (None, m') \<Rightarrow>
               (let m'' = m'\<lparr>sections_processed := sections_processed m' + 1\<rparr>
                in if on_section_done E
                   then m''\<lparr>callbacks := callbacks m'' @ [(section_dir (raw_dir E) section, pleito)]\<rparr>
                   else m'')))"

text \<open>
  The sections of a state are processed in batches of 500
  (\<open>sections[batch_start:batch_start + BATCH]\<close>); the tasks of a batch are gathered,
  here one after the other.
\<close>

definition BATCH :: nat where
  "BATCH = 500"

function batches_of :: "nat \<Rightarrow> 'a list \<Rightarrow> 'a list list" where
  "batches_of n xs =
     (if n = 0 \<or> xs = [] then [] else take n xs # batches_of n (drop n xs))"
  by pat_completeness auto
termination
  by (relation "measure (\<lambda>(n, xs). length xs)") auto

declare batches_of.simps [simp del]

definition process_batch ::
  "env \<Rightarrow> string \<Rightarrow> string \<Rightarrow> string list option \<Rightarrow> Section list \<Rightarrow> manager \<Rightarrow> manager" where
  "process_batch E ciclo pleito file_types batch m =
     foldl (\<lambda>m section. process_one_section E ciclo pleito file_types section m) m batch"

text \<open>
  The part of \<open>download_state\<close> after the sections to process have been enumerated,
  filtered and sampled: the batch loop, and the stats returned.
\<close>

definition download_state_sections ::
  "env \<Rightarrow> string \<Rightarrow> string \<Rightarrow> string list option \<Rightarrow> Section list \<Rightarrow> manager \<Rightarrow> manager" where
  "download_state_sections E ciclo pleito file_types sections m =
     foldl (\<lambda>m batch. process_batch E ciclo pleito file_types batch m) m (batches_of BATCH sections)"



subsection \<open>The batch loop is a fold over the sections; runs add up\<close>

lemma concat_batches_of: "0 < n \<Longrightarrow> concat (batches_of n xs) = xs"
proof (induction n xs rule: batches_of.induct)
  case (1 n xs)
  show ?case
  proof (cases "xs = []")
    case True
    then show ?thesis by (simp add: batches_of.simps)
  next
    case False
    with 1 show ?thesis
      by (subst batches_of.simps) simp
  qed
qed

lemma foldl_concat_batches:
  "foldl (\<lambda>m b. foldl f m b) m bs = foldl f m (concat bs)"
  by (induction bs arbitrary: m) simp_all

lemma download_state_sections_foldl:
  "download_state_sections E ciclo pleito file_types sections m =
     foldl (\<lambda>m section. process_one_section E ciclo pleito file_types section m) m sections"
  unfolding download_state_sections_def process_batch_def
  by (simp add: foldl_concat_batches concat_batches_of BATCH_def)






subsection \<open>Partial-failure isolation\<close>







text \<open>Three sections of one zone; the manifest fetch of the second one fails.\<close>

definition secA :: Section where
  "secA = \<lparr>uf = ''DF'', municipio_codigo = ''97012'', municipio_nome = ''BRASILIA'',
            zona = ''0001'', secao = ''0001''\<rparr>"






subsection \<open>Manifest entries without a hash\<close>

text \<open>
  An entry of a manifest whose content hash is the string \<open>"0"\<close> or the empty string,
  and a manifest with these entries taken out of its \<open>hashes\<close> list.
\<close>

fun null_hash_entry :: "pyval \<Rightarrow> bool" where
  "null_hash_entry (PDict kvs) =
     (map_of kvs ''hash'' = Some (PStr ''0'') \<or> map_of kvs ''hash'' = Some (PStr []))"
| "null_hash_entry _ = False"

definition drop_null_hashes :: "pyval \<Rightarrow> pyval" where
  "drop_null_hashes data =
     (case data of
        PDict kvs \<Rightarrow>
          PDict (map (\<lambda>kv. if fst kv = ''hashes''
                            then (fst kv, (case snd kv of
                                             PList hs \<Rightarrow> PList (filter (\<lambda>h. \<not> null_hash_entry h) hs)
                                           | v \<Rightarrow> v))
                            else kv) kvs)
      | _ \<Rightarrow> data)"

lemma meta_entries_drop:
  "meta_entries s (filter (\<lambda>h. \<not> null_hash_entry h) hs) = meta_entries s hs"
proof (induction hs)
  case Nil
  then show ?case by simp
next
  case (Cons h hs)
  show ?case
  proof (cases "null_hash_entry h")
    case True
    then obtain kvs where h: "h = PDict kvs" by (cases h) auto
    with True Cons show ?thesis by auto
  next
    case False
    then show ?thesis using Cons
      by (auto split: sum.splits pyval.splits)
  qed
qed

lemma meta_entries_hash:
  "meta_entries s hs = Inr us \<Longrightarrow> u \<in> set us \<Longrightarrow>
     um_hash u \<noteq> PStr ''0'' \<and> um_hash u \<noteq> PStr [] \<and> truthy (um_hash u)"
proof (induction hs arbitrary: us)
  case Nil
  then show ?case by simp
next
  case (Cons h hs)
  then show ?case
    by (auto split: sum.splits pyval.splits if_splits)
qed

lemma map_of_drop:
  "map_of (map (\<lambda>kv. if fst kv = k0 then (fst kv, g (snd kv)) else kv) kvs) k =
     (if k = k0 then map_option g (map_of kvs k) else map_of kvs k)"
  by (induction kvs) auto

lemma get_section_meta_drop:
  "get_section_meta (\<lambda>url. map_sum id drop_null_hashes (fo url)) c p s =
     get_section_meta fo c p s"
proof (cases "fo (section_meta_url c p s)")
  case (Inl e)
  then show ?thesis by (simp add: get_section_meta_def)
next
  case (Inr data)
  show ?thesis
  proof (cases data)
    case (PDict kvs)
    show ?thesis
    proof (cases "map_of kvs ''hashes''")
      case None
      then show ?thesis using Inr PDict
        by (simp add: get_section_meta_def drop_null_hashes_def map_of_drop)
    next
      case (Some v)
      then show ?thesis using Inr PDict
        by (cases v) (auto simp: get_section_meta_def drop_null_hashes_def map_of_drop meta_entries_drop)
    qed
  qed (use Inr in \<open>simp_all add: get_section_meta_def drop_null_hashes_def\<close>)
qed

lemma process_one_section_fetch_cong:
  "get_section_meta (fetch E') c p s = get_section_meta (fetch E) c p s \<Longrightarrow>
   dl E' = dl E \<Longrightarrow> raw_dir E' = raw_dir E \<Longrightarrow> on_section_done E' = on_section_done E \<Longrightarrow>
   process_one_section E' c p ft s m = process_one_section E c p ft s m"
proof -
  assume g: "get_section_meta (fetch E') c p s = get_section_meta (fetch E) c p s"
    and d: "dl E' = dl E" and r: "raw_dir E' = raw_dir E"
    and o: "on_section_done E' = on_section_done E"
  have df: "download_files E' c p u ft fs res att = download_files E c p u ft fs res att"
    for u fs res att
    by (induction fs arbitrary: res att) (auto simp: d r Let_def split: pyval.splits sum.splits)
  have ds: "download_section_files E' c p u ft att = download_section_files E c p u ft att"
    for u att
    by (simp add: download_section_files_def df split: sum.splits)
  have pu: "process_urnas E' c p ft us m = process_urnas E c p ft us m" for us m
    by (induction us arbitrary: m) (simp_all add: ds split: prod.splits sum.splits)
  show ?thesis
    by (simp add: process_one_section_def g pu r o Let_def split: sum.splits prod.splits option.splits)
qed

text \<open>
  Claim C7. No hash group returned by \<open>get_section_meta\<close> has the hash \<open>"0"\<close> or
  the empty string; and a run of the orchestrator is the same, in its stats (so in
  \<open>errors\<close>), in the download calls it issues and in its callbacks, as the run on the
  manifests with those entries taken out: they produce no download attempt and no error.
\<close>

theorem null_hash_entries_discarded:
  "(\<forall>us. get_section_meta (fetch E) ciclo pleito section = Inr us \<longrightarrow>
       (\<forall>u\<in>set us. um_hash u \<noteq> PStr ''0'' \<and> um_hash u \<noteq> PStr []))
   \<and> download_state_sections
        (E\<lparr>fetch := \<lambda>url. map_sum id drop_null_hashes (fetch E url)\<rparr>)
        ciclo pleito file_types sections m =
      download_state_sections E ciclo pleito file_types sections m"
proof
  show "\<forall>us. get_section_meta (fetch E) ciclo pleito section = Inr us \<longrightarrow>
       (\<forall>u\<in>set us. um_hash u \<noteq> PStr ''0'' \<and> um_hash u \<noteq> PStr [])"
    by (auto simp: get_section_meta_def dest: meta_entries_hash
        split: sum.splits if_splits)
  let ?E' = "E\<lparr>fetch := \<lambda>url. map_sum id drop_null_hashes (fetch E url)\<rparr>"
  have one: "process_one_section ?E' ciclo pleito file_types s m' =
      process_one_section E ciclo pleito file_types s m'" for s m'
    by (rule process_one_section_fetch_cong) (simp_all add: get_section_meta_drop)
  show "download_state_sections ?E' ciclo pleito file_types sections m =
      download_state_sections E ciclo pleito file_types sections m"
    by (simp add: download_state_sections_foldl one)
qed

text \<open>
  A manifest with a \<open>"0"\<close> entry, an entry with an empty hash and a real one; every
  download succeeds.
\<close>

definition manifest_null :: pyval where
  "manifest_null =
     PDict [(''hashes'',
       PList [PDict [(''hash'', PStr ''0''), (''nmarq'', PList [PStr ''o00406-a.bu''])],
              PDict [(''hash'', PStr []), (''nmarq'', PList [PStr ''o00406-b.bu''])],
              PDict [(''hash'', PStr ''abc''), (''st'', PStr ''ok''),
                     (''nmarq'', PList [PStr ''o00406-x.bu''])]])]"

definition env_null :: env where
  "env_null =
     \<lparr>fetch = (\<lambda>url. Inr manifest_null),
      dl = (\<lambda>url dest. Inr (True, True)),
      raw_dir = [''data'', ''raw''],
      on_section_done = True\<rparr>"

definition urna_abc :: UrnaMeta where
  "urna_abc =
     \<lparr>um_section = secA, um_hash = PStr ''abc'', um_status = PStr ''ok'', um_data = PStr [],
      um_hora = PStr [], um_arquivos = PList [PStr ''o00406-x.bu'']\<rparr>"

theorem null_hash_entries_discarded_witness:
  "get_section_meta (fetch env_null) ''ele2022'' ''406'' secA = Inr [urna_abc]
   \<and> um_hash urna_abc \<noteq> PStr ''0'' \<and> um_hash urna_abc \<noteq> PStr []
   \<and> download_state_sections
        (env_null\<lparr>fetch := \<lambda>url. map_sum id drop_null_hashes (fetch env_null url)\<rparr>)
        ''ele2022'' ''406'' None [secA] manager0 =
      download_state_sections env_null ''ele2022'' ''406'' None [secA] manager0
   \<and> errors (download_state_sections env_null ''ele2022'' ''406'' None [secA] manager0) = 0
   \<and> attempts (download_state_sections env_null ''ele2022'' ''406'' None [secA] manager0) =
       [(build_file_url ''ele2022'' ''406'' secA (PStr ''abc'') (PStr ''o00406-x.bu''),
         [''data'', ''raw'', ''df'', ''97012'', ''0001'', ''0001'', ''o00406-x.bu''])]"
proof -
  have g: "get_section_meta (fetch env_null) ''ele2022'' ''406'' secA = Inr [urna_abc]"
    by code_simp
  have e: "errors (download_state_sections env_null ''ele2022'' ''406'' None [secA] manager0) = 0"
    by code_simp
  have a: "attempts (download_state_sections env_null ''ele2022'' ''406'' None [secA] manager0) =
       [(build_file_url ''ele2022'' ''406'' secA (PStr ''abc'') (PStr ''o00406-x.bu''),
         [''data'', ''raw'', ''df'', ''97012'', ''0001'', ''0001'', ''o00406-x.bu''])]"
    by code_simp
  note t = null_hash_entries_discarded[of env_null "''ele2022''" "''406''" secA None "[secA]" manager0]
  from t g have "um_hash urna_abc \<noteq> PStr ''0'' \<and> um_hash urna_abc \<noteq> PStr []"
    by simp
  with t g e a show ?thesis by simp
qed

subsection \<open>HTTP 404\<close>









section \<open>The ballot record decoder (parsers/asn1\_helper.py, parsers/bu.py, models.py)\<close>

datatype TipoVoto = NOMINAL | BRANCO | NULO | LEGENDA | CARGO_SEM_CANDIDATO

text \<open>\<open>TipoVoto.value\<close>\<close>

fun tipo_voto_value :: "TipoVoto \<Rightarrow> string" where
  "tipo_voto_value NOMINAL = ''nominal''"
| "tipo_voto_value BRANCO = ''branco''"
| "tipo_voto_value NULO = ''nulo''"
| "tipo_voto_value LEGENDA = ''legenda''"
| "tipo_voto_value CARGO_SEM_CANDIDATO = ''cargoSemCandidato''"

datatype Fase = SIMULADO | OFICIAL | TREINAMENTO

datatype SpecVersion = V1 | V2

record VotoTupla =
  tipo_voto :: TipoVoto
  quantidade :: int
  codigo_votavel :: "int option"
  partido :: "int option"
  vt_hash :: "string option"
  ordem_hash :: "int option"

record ResultadoCargo =
  codigo_cargo :: pyval
  nome_cargo :: string
  comparecimento :: int
  votos :: "VotoTupla list"

record ResultadoEleicao =
  id_eleicao :: int
  eleitores_aptos :: int
  eleitores_aptos_secao :: "int option"
  eleitores_aptos_tte :: "int option"
  resultados :: "ResultadoCargo list"
  ultimo_hash :: "string option"
  assinatura_ultimo_hash :: "string option"

record BoletimUrna =
  bu_uf :: string
  bu_municipio :: int
  bu_zona :: int
  bu_secao :: int
  local_votacao :: "int option"
  modelo_urna :: "string option"
  numero_serie :: "int option"
  numero_interno :: "int option"
  codigo_carga :: "string option"
  tipo_urna :: "string option"
  tipo_arquivo :: "pyval option"
  versao_votacao :: "string option"
  fase :: Fase
  spec_version :: SpecVersion
  data_hora_emissao :: "string option"
  hora_abertura :: "string option"
  hora_encerramento :: "string option"
  qtd_eleitores_lib_codigo :: int
  qtd_eleitores_comp_biometrico :: int
  resultados_por_eleicao :: "ResultadoEleicao list"
  historico_correspondencias :: "pyval option"

subsection \<open>The decoded message\<close>


record votavel_msg =
  iv_codigo :: "int option"
  iv_partido :: "int option"

record voto_msg =
  tipoVoto :: "pyval option"
  quantidadeVotos :: "int option"
  identificacaoVotavel :: "votavel_msg option"
  vv_hash :: "string option"
  ordemGeracaoHash :: "int option"












subsection \<open>Schema generation from the file name\<close>

definition path_name :: "path \<Rightarrow> string" where
  "path_name p = (if p = [] then [] else last p)"


subsection \<open>Vote kinds and office codes\<close>

text \<open>Whether a value can be a dict key (\<open>hash\<close> does not raise).\<close>

fun hashable :: "pyval \<Rightarrow> bool" where
  "hashable (PList xs) = False"
| "hashable (PDict kvs) = False"
| "hashable (PTuple xs) = list_all hashable xs"
| "hashable _ = True"

text \<open>
  \<open>_TIPO_VOTO_MAP.get(tipo_raw, TipoVoto.NOMINAL)\<close>: the five names, the numbers 1 to
  5 (\<open>True\<close> is the key 1), and \<open>NOMINAL\<close> for every other key.
\<close>

definition tipo_voto_of_name :: "string \<Rightarrow> TipoVoto" where
  "tipo_voto_of_name s =
     (if s = ''nominal'' then NOMINAL
      else if s = ''branco'' then BRANCO
      else if s = ''nulo'' then NULO
      else if s = ''legenda'' then LEGENDA
      else if s = ''cargoSemCandidato'' then CARGO_SEM_CANDIDATO
      else NOMINAL)"

definition tipo_voto_of_code :: "int \<Rightarrow> TipoVoto" where
  "tipo_voto_of_code n =
     (if n = 1 then NOMINAL
      else if n = 2 then BRANCO
      else if n = 3 then NULO
      else if n = 4 then LEGENDA
      else if n = 5 then CARGO_SEM_CANDIDATO
      else NOMINAL)"

definition TIPO_VOTO_MAP_get :: "pyval \<Rightarrow> exn + TipoVoto" where
  "TIPO_VOTO_MAP_get tipo_raw =
     (if \<not> hashable tipo_raw then Inl TypeError
      else Inr (case tipo_raw of
                  PStr s \<Rightarrow> tipo_voto_of_name s
                | PInt n \<Rightarrow> tipo_voto_of_code n
                | PBool b \<Rightarrow> tipo_voto_of_code (if b then 1 else 0)
                | _ \<Rightarrow> NOMINAL))"

text \<open>\<open>x[i]\<close> on a tuple.\<close>

definition tuple_item :: "pyval list \<Rightarrow> nat \<Rightarrow> exn + pyval" where
  "tuple_item xs i = (if i < length xs then Inr (xs ! i) else Inl IndexError)"

text \<open>
  \<open>tipo_raw = vv.get("tipoVoto", "nominal")\<close>, unwrapped when it is a tuple:
  \<open>tipo_raw[0] if isinstance(tipo_raw[0], str) else tipo_raw[1]\<close>.
\<close>

definition tipo_raw_of :: "voto_msg \<Rightarrow> exn + pyval" where
  "tipo_raw_of vv =
     (case (case tipoVoto vv of None \<Rightarrow> PStr ''nominal'' | Some v \<Rightarrow> v) of
        PTuple xs \<Rightarrow>
          (case tuple_item xs 0 of
             Inl e \<Rightarrow> Inl e
           | Inr x0 \<Rightarrow> (case x0 of PStr s \<Rightarrow> Inr x0 | _ \<Rightarrow> tuple_item xs 1))
      | v \<Rightarrow> Inr v)"

definition parse_voto :: "voto_msg \<Rightarrow> exn + VotoTupla" where
  "parse_voto vv =
     (case tipo_raw_of vv of
        Inl e \<Rightarrow> Inl e
      | Inr tipo_raw \<Rightarrow>
          (case TIPO_VOTO_MAP_get tipo_raw of
             Inl e \<Rightarrow> Inl e
           | Inr tv \<Rightarrow>
               Inr \<lparr>tipo_voto = tv,
                    quantidade = (case quantidadeVotos vv of None \<Rightarrow> 0 | Some q \<Rightarrow> q),
                    codigo_votavel = (case identificacaoVotavel vv of None \<Rightarrow> None | Some iv \<Rightarrow> iv_codigo iv),
                    partido = (case identificacaoVotavel vv of None \<Rightarrow> None | Some iv \<Rightarrow> iv_partido iv),
                    vt_hash = vv_hash vv,
                    ordem_hash = ordemGeracaoHash vv\<rparr>))"








subsection \<open>Building the ballot record\<close>








subsection \<open>What the decoded record depends on\<close>









section \<open>The compiled store (database/duckdb\_store.py, analyzer/batch.py)\<close>

subsection \<open>The analysis of one section\<close>

text \<open>
  The summary of a ballot record that \<open>_analyze_section\<close> puts under \<open>result["bu"]\<close>:
  per office the totals by vote kind, summed over the vote tuples whose kind has that
  value.
\<close>

record cargo_summary =
  cs_cargo :: string
  cs_codigo :: pyval
  cs_comparecimento :: int
  cs_total_votos :: int
  cs_nominais :: int
  cs_brancos :: int
  cs_nulos :: int
  cs_legenda :: int

record eleicao_summary =
  es_id :: int
  es_aptos :: int
  es_cargos :: "cargo_summary list"

record bu_info =
  bi_municipio :: int
  bi_zona :: int
  bi_secao :: int
  bi_tipo_urna :: "string option"
  bi_versao :: "string option"
  bi_emissao :: "string option"
  bi_lib_codigo :: int
  bi_comp_biometrico :: int
  bi_eleicoes :: "eleicao_summary list"

definition sum_kind :: "string \<Rightarrow> VotoTupla list \<Rightarrow> int" where
  "sum_kind kind vs =
     sum_list (map quantidade (filter (\<lambda>v. tipo_voto_value (tipo_voto v) = kind) vs))"

definition summarize_cargo :: "ResultadoCargo \<Rightarrow> cargo_summary" where
  "summarize_cargo cargo =
     (let n = sum_kind ''nominal'' (votos cargo);
          b = sum_kind ''branco'' (votos cargo);
          u = sum_kind ''nulo'' (votos cargo);
          l = sum_kind ''legenda'' (votos cargo)
      in \<lparr>cs_cargo = nome_cargo cargo, cs_codigo = codigo_cargo cargo,
          cs_comparecimento = comparecimento cargo, cs_total_votos = n + b + u + l,
          cs_nominais = n, cs_brancos = b, cs_nulos = u, cs_legenda = l\<rparr>)"

definition summarize_bu :: "BoletimUrna \<Rightarrow> bu_info" where
  "summarize_bu bu =
     \<lparr>bi_municipio = bu_municipio bu, bi_zona = bu_zona bu, bi_secao = bu_secao bu,
      bi_tipo_urna = tipo_urna bu, bi_versao = versao_votacao bu,
      bi_emissao = data_hora_emissao bu,
      bi_lib_codigo = qtd_eleitores_lib_codigo bu,
      bi_comp_biometrico = qtd_eleitores_comp_biometrico bu,
      bi_eleicoes =
        map (\<lambda>eleicao. \<lparr>es_id = id_eleicao eleicao, es_aptos = eleitores_aptos eleicao,
                          es_cargos = map summarize_cargo (resultados eleicao)\<rparr>)
          (resultados_por_eleicao bu)\<rparr>"

datatype IssueSeverity = CRITICAL | HIGH | MEDIUM | INFO

fun severity_value :: "IssueSeverity \<Rightarrow> string" where
  "severity_value CRITICAL = ''critica''"
| "severity_value HIGH = ''alta''"
| "severity_value MEDIUM = ''media''"
| "severity_value INFO = ''informativa''"

record Issue =
  codigo :: string
  severidade :: IssueSeverity
  descricao :: string
  detalhes :: "pyval option"
  base_legal :: "string option"

record log_timing =
  lt_hora_abertura :: "string option"
  lt_hora_encerramento :: "string option"
  lt_duracao_votacao_min :: "int option"

record log_events =
  le_votos_computados :: int
  le_erros :: int
  le_alertas_mesario :: int
  le_substituicoes :: int
  le_reboots :: int

text \<open>
  What the collaborators outside the pipeline contribute for one ballot file of a section
  directory, taken as given: the decoded ballot record (\<open>None\<close> when the file is missing
  or its decoding failed, which \<open>_analyze_section\<close> catches and logs), the equipment
  model, the issues found, and the timing and events of the log (\<open>None\<close> without a
  log).
\<close>

record section_content =
  sc_bu_obj :: "BoletimUrna option"
  sc_modelo :: "string option"
  sc_issues :: "Issue list"
  sc_log_timing :: "log_timing option"
  sc_log_events :: "log_events option"

text \<open>The dict \<open>result\<close> that \<open>_analyze_section\<close> returns.\<close>

record analysis =
  a_uf :: string
  a_municipio :: string
  a_zona :: string
  a_secao :: string
  a_turno :: int
  a_bu :: "bu_info option"
  a_bu_obj :: "BoletimUrna option"
  a_modelo :: "string option"
  a_tipo_urna :: "string option"
  a_versao_sw :: "string option"
  a_issues :: "Issue list"
  a_log_timing :: "log_timing option"
  a_log_events :: "log_events option"

text \<open>\<open>parts.index("raw")\<close>, and the first \<open>i\<close> with \<open>parts[i] == "raw"\<close>.\<close>

fun index_of :: "'a \<Rightarrow> 'a list \<Rightarrow> nat option" where
  "index_of x [] = None"
| "index_of x (y # ys) = (if x = y then Some 0 else map_option Suc (index_of x ys))"

text \<open>
  \<open>extract_pleito_from_filename\<close>: \<open>name[3:].split("-")[0]\<close> for a name that starts with
  \<open>o00\<close>, and \<open>pleito_to_turno\<close>.
\<close>

definition extract_pleito_from_filename :: "path \<Rightarrow> string" where
  "extract_pleito_from_filename bu_path =
     (let name = path_name bu_path in
      if prefix ''o00'' name then takeWhile (\<lambda>c. c \<noteq> CHR ''-'') (drop 3 name) else [])"

definition pleito_to_turno :: "string \<Rightarrow> int" where
  "pleito_to_turno pleito =
     (case map_of [(''406'', 1), (''407'', 2), (''452'', 1), (''453'', 2)] pleito of
        None \<Rightarrow> 1
      | Some t \<Rightarrow> t)"

text \<open>\<open>parts[-k]\<close> when there are at least \<open>k\<close> parts, else the empty string.\<close>

definition from_end :: "string list \<Rightarrow> nat \<Rightarrow> string" where
  "from_end parts k = (if k \<le> length parts then parts ! (length parts - k) else [])"

text \<open>
  \<open>_analyze_section(section_dir, bu_file)\<close>: the identity of the section from the
  directory's path, the round from the ballot file's name, the rest from the content \<open>c\<close>
  that the collaborators read from the files.
\<close>

definition analyze_section ::
  "section_content \<Rightarrow> path \<Rightarrow> path option \<Rightarrow> analysis" where
  "analyze_section c sdir bu_file =
     (let parts = sdir;
          located = (case index_of ''raw'' parts of
                       None \<Rightarrow> False
                     | Some raw_idx \<Rightarrow> raw_idx + 4 < length parts);
          raw_idx = (case index_of ''raw'' parts of None \<Rightarrow> 0 | Some i \<Rightarrow> i)
      in \<lparr>a_uf = (if located then parts ! (raw_idx + 1) else from_end parts 4),
          a_municipio = (if located then parts ! (raw_idx + 2) else from_end parts 3),
          a_zona = (if located then parts ! (raw_idx + 3) else from_end parts 2),
          a_secao = (if located then parts ! (raw_idx + 4) else from_end parts 1),
          a_turno = (case bu_file of
                       None \<Rightarrow> 1
                     | Some f \<Rightarrow> pleito_to_turno (extract_pleito_from_filename f)),
          a_bu = map_option summarize_bu (sc_bu_obj c),
          a_bu_obj = sc_bu_obj c,
          a_modelo = sc_modelo c,
          a_tipo_urna = (case sc_bu_obj c of None \<Rightarrow> None | Some b \<Rightarrow> tipo_urna b),
          a_versao_sw = (case sc_bu_obj c of None \<Rightarrow> None | Some b \<Rightarrow> versao_votacao b),
          a_issues = sc_issues c,
          a_log_timing = sc_log_timing c,
          a_log_events = sc_log_events c\<rparr>)"

subsection \<open>Tables\<close>

text \<open>
  The float \<open>round(num / den * 100, 2)\<close>, kept as its two integer operands: the float
  is a function of them.
\<close>

datatype pct = Pct int int

record secao_row =
  c_id :: string
  c_turno :: int
  c_uf :: string
  c_regiao :: string
  c_municipio :: string
  c_zona :: string
  c_secao :: string
  c_modelo_urna :: "string option"
  c_tipo_urna :: "string option"
  c_versao_sw :: "string option"
  c_fuso_offset :: int
  c_emissao :: "string option"
  c_eleitores_aptos :: int
  c_comparecimento :: int
  c_lib_codigo :: int
  c_comp_biometrico :: int
  c_pct_biometria :: "pct option"
  c_pct_abstencao :: "pct option"
  c_hora_abertura :: "string option"
  c_hora_encerramento :: "string option"
  c_duracao_min :: "int option"
  c_reboots :: int
  c_erros_log :: int
  c_alertas_mesario :: int
  c_votos_log :: int
  c_substituicoes :: int
  c_is_reserva :: bool
  c_has_issues :: bool
  c_n_issues :: int

record voto_row =
  vr_secao_id :: string
  vr_eleicao_id :: int
  vr_cargo :: string
  vr_codigo_cargo :: pyval
  vr_tipo_voto :: string
  vr_codigo_candidato :: "int option"
  vr_partido :: "int option"
  vr_quantidade :: int

record issue_row =
  ir_id :: int
  ir_secao_id :: string
  ir_codigo :: string
  ir_severidade :: string
  ir_descricao :: string
  ir_base_legal :: "string option"
  ir_detalhes :: "string option"

record totais_row =
  tr_secao_id :: string
  tr_eleicao_id :: int
  tr_cargo :: string
  tr_codigo_cargo :: pyval
  tr_comparecimento :: int
  tr_nominais :: int
  tr_brancos :: int
  tr_nulos :: int
  tr_legenda :: int
  tr_total :: int

text \<open>
  The four tables, each the list of its rows in insertion order, and the next value of
  the sequence \<open>issue_seq\<close>. Only \<open>secoes\<close> has a key (\<open>id\<close>).
\<close>

record store =
  secoes :: "secao_row list"
  votos_tab :: "voto_row list"
  issues_tab :: "issue_row list"
  totais_cargo :: "totais_row list"
  issue_seq :: int

definition store0 :: store where
  "store0 = \<lparr>secoes = [], votos_tab = [], issues_tab = [], totais_cargo = [], issue_seq = 1\<rparr>"

text \<open>\<open>INSERT OR REPLACE INTO secoes\<close>: the row with the same \<open>id\<close> is replaced.\<close>

definition insert_or_replace :: "secao_row \<Rightarrow> secao_row list \<Rightarrow> secao_row list" where
  "insert_or_replace row rows =
     (if list_ex (\<lambda>r. c_id r = c_id row) rows
      then map (\<lambda>r. if c_id r = c_id row then row else r) rows
      else rows @ [row])"

text \<open>\<open>_UF_REGIAO\<close> (from \<open>REGIOES\<close>) and \<open>TIMEZONE_OFFSETS\<close> of config.py.\<close>

definition UF_REGIAO :: "(string \<times> string) list" where
  "UF_REGIAO =
     map (\<lambda>u. (u, ''norte'')) [''ac'', ''am'', ''ap'', ''pa'', ''ro'', ''rr'', ''to'']
     @ map (\<lambda>u. (u, ''nordeste''))
         [''al'', ''ba'', ''ce'', ''ma'', ''pb'', ''pe'', ''pi'', ''rn'', ''se'']
     @ map (\<lambda>u. (u, ''centro_oeste'')) [''df'', ''go'', ''ms'', ''mt'']
     @ map (\<lambda>u. (u, ''sudeste'')) [''es'', ''mg'', ''rj'', ''sp'']
     @ map (\<lambda>u. (u, ''sul'')) [''pr'', ''rs'', ''sc'']"

definition TIMEZONE_OFFSETS :: "(string \<times> int) list" where
  "TIMEZONE_OFFSETS =
     [(''ac'', - 2), (''am'', - 1), (''mt'', - 1), (''ms'', - 1), (''ro'', - 1), (''rr'', - 1)]"

subsection \<open>Compiling one section\<close>

definition secao_id_of :: "analysis \<Rightarrow> string" where
  "secao_id_of result =
     str_int (a_turno result) @ ''T/'' @ a_uf result @ ''/'' @ a_municipio result
       @ ''/'' @ a_zona result @ ''/'' @ a_secao result"

text \<open>The row of \<open>secoes\<close>: the values bound to the 29 parameters of the upsert.\<close>

definition secao_row_of :: "analysis \<Rightarrow> secao_row" where
  "secao_row_of result =
     (let eleicoes = (case a_bu result of None \<Rightarrow> [] | Some bi \<Rightarrow> bi_eleicoes bi);
          eleitores_aptos = (case eleicoes of [] \<Rightarrow> 0 | el # els \<Rightarrow> es_aptos el);
          compar = foldl (\<lambda>acc comp. if comp > acc then comp else acc) 0
                     (concat (map (\<lambda>el. map cs_comparecimento (es_cargos el)) eleicoes));
          lib_codigo = (case a_bu result of None \<Rightarrow> 0 | Some bi \<Rightarrow> bi_lib_codigo bi);
          comp_bio = (case a_bu result of None \<Rightarrow> 0 | Some bi \<Rightarrow> bi_comp_biometrico bi);
          total_bio = lib_codigo + comp_bio;
          timing = (case a_log_timing result of
                      None \<Rightarrow> \<lparr>lt_hora_abertura = None, lt_hora_encerramento = None,
                                 lt_duracao_votacao_min = None\<rparr>
                    | Some t \<Rightarrow> t);
          events = (case a_log_events result of
                      None \<Rightarrow> \<lparr>le_votos_computados = 0, le_erros = 0, le_alertas_mesario = 0,
                                 le_substituicoes = 0, le_reboots = 0\<rparr>
                    | Some e \<Rightarrow> e)
      in \<lparr>c_id = secao_id_of result,
          c_turno = a_turno result,
          c_uf = a_uf result,
          c_regiao = (case map_of UF_REGIAO (lower (a_uf result)) of
                        None \<Rightarrow> ''desconhecida'' | Some r \<Rightarrow> r),
          c_municipio = a_municipio result,
          c_zona = a_zona result,
          c_secao = a_secao result,
          c_modelo_urna = a_modelo result,
          c_tipo_urna = a_tipo_urna result,
          c_versao_sw = a_versao_sw result,
          c_fuso_offset = (case map_of TIMEZONE_OFFSETS (lower (a_uf result)) of
                             None \<Rightarrow> 0 | Some z \<Rightarrow> z),
          c_emissao = (case a_bu result of None \<Rightarrow> None | Some bi \<Rightarrow> bi_emissao bi),
          c_eleitores_aptos = eleitores_aptos,
          c_comparecimento = compar,
          c_lib_codigo = lib_codigo,
          c_comp_biometrico = comp_bio,
          c_pct_biometria = (if total_bio > 0 then Some (Pct comp_bio total_bio) else None),
          c_pct_abstencao = (if eleitores_aptos > 0
                             then Some (Pct (eleitores_aptos - compar) eleitores_aptos) else None),
          c_hora_abertura = lt_hora_abertura timing,
          c_hora_encerramento = lt_hora_encerramento timing,
          c_duracao_min = lt_duracao_votacao_min timing,
          c_reboots = le_reboots events,
          c_erros_log = le_erros events,
          c_alertas_mesario = le_alertas_mesario events,
          c_votos_log = le_votos_computados events,
          c_substituicoes = le_substituicoes events,
          c_is_reserva = (a_tipo_urna result = Some ''reservaSecao''),
          c_has_issues = (a_issues result \<noteq> []),
          c_n_issues = int (length (a_issues result))\<rparr>)"

text \<open>\<open>INSERT INTO issues VALUES (nextval('issue_seq'), ...)\<close>\<close>

definition insert_issue :: "string \<Rightarrow> store \<Rightarrow> Issue \<Rightarrow> store" where
  "insert_issue sid s issue =
     s\<lparr>issues_tab := issues_tab s @
          [\<lparr>ir_id = issue_seq s, ir_secao_id = sid, ir_codigo = codigo issue,
            ir_severidade = severity_value (severidade issue),
            ir_descricao = descricao issue, ir_base_legal = base_legal issue,
            ir_detalhes = (case detalhes issue of
                             None \<Rightarrow> None
                           | Some d \<Rightarrow> if truthy d then Some (py_str d) else None)\<rparr>],
       issue_seq := issue_seq s + 1\<rparr>"

definition voto_row_of :: "string \<Rightarrow> ResultadoEleicao \<Rightarrow> ResultadoCargo \<Rightarrow> VotoTupla \<Rightarrow> voto_row" where
  "voto_row_of sid eleicao cargo voto =
     \<lparr>vr_secao_id = sid, vr_eleicao_id = id_eleicao eleicao, vr_cargo = nome_cargo cargo,
      vr_codigo_cargo = codigo_cargo cargo, vr_tipo_voto = tipo_voto_value (tipo_voto voto),
      vr_codigo_candidato = codigo_votavel voto, vr_partido = partido voto,
      vr_quantidade = quantidade voto\<rparr>"

text \<open>The four running totals of an office, and the \<open>if\<close>/\<open>elif\<close> chain on the kind.\<close>

record tallies =
  nominais :: int
  brancos :: int
  nulos :: int
  legenda :: int

definition tallies0 :: tallies where
  "tallies0 = \<lparr>nominais = 0, brancos = 0, nulos = 0, legenda = 0\<rparr>"

definition add_voto :: "tallies \<Rightarrow> VotoTupla \<Rightarrow> tallies" where
  "add_voto t voto =
     (let tipo = tipo_voto_value (tipo_voto voto) in
      if tipo = ''nominal'' then t\<lparr>nominais := nominais t + quantidade voto\<rparr>
      else if tipo = ''branco'' then t\<lparr>brancos := brancos t + quantidade voto\<rparr>
      else if tipo = ''nulo'' then t\<lparr>nulos := nulos t + quantidade voto\<rparr>
      else if tipo = ''legenda'' then t\<lparr>legenda := legenda t + quantidade voto\<rparr>
      else t)"

text \<open>The body of \<open>for voto in cargo.votos\<close>: one row of \<open>votos\<close>, and the totals.\<close>

definition insert_voto ::
  "string \<Rightarrow> ResultadoEleicao \<Rightarrow> ResultadoCargo \<Rightarrow> store \<times> tallies \<Rightarrow> VotoTupla \<Rightarrow> store \<times> tallies" where
  "insert_voto sid eleicao cargo st voto =
     ((fst st)\<lparr>votos_tab := votos_tab (fst st) @ [voto_row_of sid eleicao cargo voto]\<rparr>,
      add_voto (snd st) voto)"

definition totais_row_of :: "string \<Rightarrow> ResultadoEleicao \<Rightarrow> ResultadoCargo \<Rightarrow> tallies \<Rightarrow> totais_row" where
  "totais_row_of sid eleicao cargo t =
     \<lparr>tr_secao_id = sid, tr_eleicao_id = id_eleicao eleicao, tr_cargo = nome_cargo cargo,
      tr_codigo_cargo = codigo_cargo cargo, tr_comparecimento = comparecimento cargo,
      tr_nominais = nominais t, tr_brancos = brancos t, tr_nulos = nulos t,
      tr_legenda = legenda t, tr_total = nominais t + brancos t + nulos t + legenda t\<rparr>"

text \<open>The body of \<open>for cargo in eleicao.resultados\<close>.\<close>

definition insert_cargo :: "string \<Rightarrow> ResultadoEleicao \<Rightarrow> store \<Rightarrow> ResultadoCargo \<Rightarrow> store" where
  "insert_cargo sid eleicao s cargo =
     (let st = foldl (insert_voto sid eleicao cargo) (s, tallies0) (votos cargo)
      in (fst st)\<lparr>totais_cargo := totais_cargo (fst st) @ [totais_row_of sid eleicao cargo (snd st)]\<rparr>)"

text \<open>
  \<open>_process_section\<close>, from the analysis on: the upsert of the section's row, then the
  issue rows, then for each election and office the vote rows and the totals row.
\<close>

definition process_section :: "analysis \<Rightarrow> store \<Rightarrow> store" where
  "process_section result s =
     (let sid = secao_id_of result;
          s1 = s\<lparr>secoes := insert_or_replace (secao_row_of result) (secoes s)\<rparr>;
          s2 = foldl (insert_issue sid) s1 (a_issues result)
      in case a_bu_obj result of
           None \<Rightarrow> s2
         | Some bu_obj \<Rightarrow>
             foldl (\<lambda>s eleicao. foldl (insert_cargo sid eleicao) s (resultados eleicao))
               s2 (resultados_por_eleicao bu_obj))"

subsection \<open>Vote tuples with an unknown kind\<close>

text \<open>
  The tags the map knows: the five symbolic names and the numeric codes 1 to 5.
\<close>

definition known_tipo :: "pyval \<Rightarrow> bool" where
  "known_tipo tag =
     (case tag of
        PStr s \<Rightarrow> s \<in> set [''nominal'', ''branco'', ''nulo'', ''legenda'', ''cargoSemCandidato'']
      | PInt n \<Rightarrow> 1 \<le> n \<and> n \<le> 5
      | _ \<Rightarrow> False)"

lemma unknown_tag_nominal:
  "hashable tag \<Longrightarrow> \<not> known_tipo tag \<Longrightarrow> TIPO_VOTO_MAP_get tag = Inr NOMINAL"
  by (cases tag)
    (auto simp: TIPO_VOTO_MAP_get_def known_tipo_def tipo_voto_of_name_def tipo_voto_of_code_def)

lemma foldl_add_voto:
  "nominais (foldl add_voto t vs) = nominais t + sum_kind ''nominal'' vs"
  "brancos (foldl add_voto t vs) = brancos t + sum_kind ''branco'' vs"
  "nulos (foldl add_voto t vs) = nulos t + sum_kind ''nulo'' vs"
  "legenda (foldl add_voto t vs) = legenda t + sum_kind ''legenda'' vs"
proof -
  have "nominais (foldl add_voto t vs) = nominais t + sum_kind ''nominal'' vs
    \<and> brancos (foldl add_voto t vs) = brancos t + sum_kind ''branco'' vs
    \<and> nulos (foldl add_voto t vs) = nulos t + sum_kind ''nulo'' vs
    \<and> legenda (foldl add_voto t vs) = legenda t + sum_kind ''legenda'' vs"
  proof (induction vs arbitrary: t)
    case Nil
    then show ?case by (simp add: sum_kind_def)
  next
    case (Cons v vs)
    note ih = Cons.IH[of "add_voto t v"]
    have hd: "sum_kind k (v # vs) =
        (if tipo_voto_value (tipo_voto v) = k then quantidade v else 0) + sum_kind k vs" for k
      by (simp add: sum_kind_def)
    show ?case
      using ih
      by (cases "tipo_voto v") (simp_all add: add_voto_def hd Let_def)
  qed
  then show "nominais (foldl add_voto t vs) = nominais t + sum_kind ''nominal'' vs"
    "brancos (foldl add_voto t vs) = brancos t + sum_kind ''branco'' vs"
    "nulos (foldl add_voto t vs) = nulos t + sum_kind ''nulo'' vs"
    "legenda (foldl add_voto t vs) = legenda t + sum_kind ''legenda'' vs"
    by simp_all
qed

lemma foldl_insert_voto:
  "foldl (insert_voto sid el cargo) (s, t) vs =
     (s\<lparr>votos_tab := votos_tab s @ map (voto_row_of sid el cargo) vs\<rparr>, foldl add_voto t vs)"
  by (induction vs arbitrary: s t) (simp_all add: insert_voto_def)

lemma insert_cargo_eq:
  "insert_cargo sid el s cargo =
     s\<lparr>votos_tab := votos_tab s @ map (voto_row_of sid el cargo) (votos cargo),
       totais_cargo := totais_cargo s
          @ [totais_row_of sid el cargo (foldl add_voto tallies0 (votos cargo))]\<rparr>"
  by (simp add: insert_cargo_def foldl_insert_voto Let_def)

lemma sum_kind_insert:
  "sum_kind k (xs @ v # ys) =
     sum_kind k (xs @ ys) + (if tipo_voto_value (tipo_voto v) = k then quantidade v else 0)"
  by (simp add: sum_kind_def)

text \<open>
  Claim C10. A vote tuple whose kind tag (after the unwrapping of a tuple) is none of the
  five names and none of the codes 1 to 5 is decoded, not rejected, and its kind is
  \<open>NOMINAL\<close> (the enumeration has no other variant to mark it with): its row in
  \<open>votos\<close> says \<open>nominal\<close>, and its quantity is added to the nominal total of its
  office and to no other total, in the totals row of the store and in the summary of
  the analysis. The tag is a value that can be a dict key, as every string and integer
  is.
\<close>

theorem unknown_tipo_is_nominal:
  assumes "tipo_raw_of vv = Inr tag" and "hashable tag" and "\<not> known_tipo tag"
  shows "\<exists>v. parse_voto vv = Inr v \<and> tipo_voto v = NOMINAL
         \<and> quantidade v = (case quantidadeVotos vv of None \<Rightarrow> 0 | Some q \<Rightarrow> q)
         \<and> vr_tipo_voto (voto_row_of sid el cargo v) = ''nominal''
         \<and> tr_nominais (last (totais_cargo (insert_cargo sid el s (cargo\<lparr>votos := xs @ v # ys\<rparr>)))) =
             tr_nominais (last (totais_cargo (insert_cargo sid el s (cargo\<lparr>votos := xs @ ys\<rparr>))))
               + quantidade v
         \<and> tr_brancos (last (totais_cargo (insert_cargo sid el s (cargo\<lparr>votos := xs @ v # ys\<rparr>)))) =
             tr_brancos (last (totais_cargo (insert_cargo sid el s (cargo\<lparr>votos := xs @ ys\<rparr>))))
         \<and> tr_nulos (last (totais_cargo (insert_cargo sid el s (cargo\<lparr>votos := xs @ v # ys\<rparr>)))) =
             tr_nulos (last (totais_cargo (insert_cargo sid el s (cargo\<lparr>votos := xs @ ys\<rparr>))))
         \<and> tr_legenda (last (totais_cargo (insert_cargo sid el s (cargo\<lparr>votos := xs @ v # ys\<rparr>)))) =
             tr_legenda (last (totais_cargo (insert_cargo sid el s (cargo\<lparr>votos := xs @ ys\<rparr>))))
         \<and> cs_nominais (summarize_cargo (cargo\<lparr>votos := xs @ v # ys\<rparr>)) =
             cs_nominais (summarize_cargo (cargo\<lparr>votos := xs @ ys\<rparr>)) + quantidade v"
proof -
  from assms obtain v where v: "parse_voto vv = Inr v" and nom: "tipo_voto v = NOMINAL"
    and q: "quantidade v = (case quantidadeVotos vv of None \<Rightarrow> 0 | Some q \<Rightarrow> q)"
    by (simp add: parse_voto_def unknown_tag_nominal)
  from nom have k: "tipo_voto_value (tipo_voto v) = ''nominal''" by simp
  show ?thesis
    using v nom q k
    by (intro exI[of _ v])
      (simp add: insert_cargo_eq totais_row_of_def foldl_add_voto sum_kind_insert tallies0_def
        voto_row_of_def summarize_cargo_def Let_def del: foldl_append foldl_Cons)
qed


text \<open>A vote tuple with a tag the map does not know, and an office of one election.\<close>

definition vv_unknown :: voto_msg where
  "vv_unknown =
     \<lparr>tipoVoto = Some (PStr ''votoEmTransito''), quantidadeVotos = Some 7,
      identificacaoVotavel = None, vv_hash = None, ordemGeracaoHash = None\<rparr>"

definition eleicao_544 :: ResultadoEleicao where
  "eleicao_544 =
     \<lparr>id_eleicao = 544, eleitores_aptos = 300, eleitores_aptos_secao = None,
      eleitores_aptos_tte = None, resultados = [], ultimo_hash = None,
      assinatura_ultimo_hash = None\<rparr>"

definition cargo_presidente :: ResultadoCargo where
  "cargo_presidente =
     \<lparr>codigo_cargo = PInt 1, nome_cargo = ''Presidente'', comparecimento = 250, votos = []\<rparr>"

theorem unknown_tipo_is_nominal_witness:
  "tipo_raw_of vv_unknown = Inr (PStr ''votoEmTransito'')
   \<and> hashable (PStr ''votoEmTransito'') \<and> \<not> known_tipo (PStr ''votoEmTransito'')
   \<and> map_sum id tipo_voto (parse_voto vv_unknown) = Inr NOMINAL
   \<and> map_sum id quantidade (parse_voto vv_unknown) = Inr 7
   \<and> tr_nominais (last (totais_cargo (insert_cargo ''1T/df/97012/0001/0001'' eleicao_544 store0
        (cargo_presidente\<lparr>votos := [projr (parse_voto vv_unknown)]\<rparr>)))) = 7"
proof -
  have p1: "tipo_raw_of vv_unknown = Inr (PStr ''votoEmTransito'')"
    by (simp add: tipo_raw_of_def vv_unknown_def)
  have p2: "hashable (PStr ''votoEmTransito'')" by simp
  have p3: "\<not> known_tipo (PStr ''votoEmTransito'')" by (simp add: known_tipo_def)
  have z: "tr_nominais (last (totais_cargo (insert_cargo ''1T/df/97012/0001/0001'' eleicao_544 store0
        (cargo_presidente\<lparr>votos := []\<rparr>)))) = 0"
    by (simp add: insert_cargo_def Let_def totais_row_of_def tallies0_def)
  have q: "quantidadeVotos vv_unknown = Some 7" by (simp add: vv_unknown_def)
  from unknown_tipo_is_nominal[OF p1 p2 p3, of "''1T/df/97012/0001/0001''" eleicao_544
      cargo_presidente store0 "[]" "[]"]
  obtain v where "parse_voto vv_unknown = Inr v" "tipo_voto v = NOMINAL" "quantidade v = 7"
    "tr_nominais (last (totais_cargo (insert_cargo ''1T/df/97012/0001/0001'' eleicao_544 store0
        (cargo_presidente\<lparr>votos := [v]\<rparr>)))) = 7"
    using z q by auto
  then show ?thesis using p1 p2 p3 by simp
qed

subsection \<open>Compiling the same section twice\<close>

text \<open>
  The rows one compile adds to \<open>votos\<close> and to \<open>totais_cargo\<close>, in order: they are
  the lists \<open>voto_rows\<close> and \<open>totais_rows\<close> that \<open>parse_section\<close> of
  scripts/rebuild\_parallel.py builds for \<open>insert_batch\<close>.
\<close>

definition voto_rows_of :: "analysis \<Rightarrow> voto_row list" where
  "voto_rows_of result =
     (case a_bu_obj result of
        None \<Rightarrow> []
      | Some bu_obj \<Rightarrow>
          concat (map (\<lambda>eleicao.
              concat (map (\<lambda>cargo. map (voto_row_of (secao_id_of result) eleicao cargo) (votos cargo))
                (resultados eleicao)))
            (resultados_por_eleicao bu_obj)))"

definition totais_rows_of :: "analysis \<Rightarrow> totais_row list" where
  "totais_rows_of result =
     (case a_bu_obj result of
        None \<Rightarrow> []
      | Some bu_obj \<Rightarrow>
          concat (map (\<lambda>eleicao.
              map (\<lambda>cargo. totais_row_of (secao_id_of result) eleicao cargo
                              (foldl add_voto tallies0 (votos cargo)))
                (resultados eleicao))
            (resultados_por_eleicao bu_obj)))"

lemma foldl_insert_cargo:
  "foldl (insert_cargo sid el) s cs =
     s\<lparr>votos_tab := votos_tab s @ concat (map (\<lambda>c. map (voto_row_of sid el c) (votos c)) cs),
       totais_cargo := totais_cargo s
         @ map (\<lambda>c. totais_row_of sid el c (foldl add_voto tallies0 (votos c))) cs\<rparr>"
  by (induction cs arbitrary: s) (simp_all add: insert_cargo_eq)

lemma foldl_eleicoes:
  "foldl (\<lambda>s el. foldl (insert_cargo sid el) s (resultados el)) s els =
     s\<lparr>votos_tab := votos_tab s
          @ concat (map (\<lambda>el. concat (map (\<lambda>c. map (voto_row_of sid el c) (votos c)) (resultados el))) els),
       totais_cargo := totais_cargo s
          @ concat (map (\<lambda>el. map (\<lambda>c. totais_row_of sid el c (foldl add_voto tallies0 (votos c)))
                                (resultados el)) els)\<rparr>"
  by (induction els arbitrary: s) (simp_all add: foldl_insert_cargo)




lemma list_ex_id:
  "list_ex (\<lambda>r. c_id r = k) rows = (k \<in> set (map c_id rows))"
  by (induction rows) auto

lemma replace_ids:
  "map c_id (map (\<lambda>r. if c_id r = c_id row then row else r) rows) = map c_id rows"
  by (induction rows) auto

lemma replace_filter_other:
  "k \<noteq> c_id row \<Longrightarrow>
     filter (\<lambda>x. c_id x = k) (map (\<lambda>r. if c_id r = c_id row then row else r) rows)
       = filter (\<lambda>x. c_id x = k) rows"
  by (induction rows) auto



lemma insert_or_replace_ids:
  "set (map c_id (insert_or_replace row rows)) = insert (c_id row) (set (map c_id rows))"
proof (cases "list_ex (\<lambda>r. c_id r = c_id row) rows")
  case True
  then have "c_id row \<in> set (map c_id rows)" by (simp add: list_ex_id)
  then show ?thesis using True replace_ids[of row rows]
    by (simp add: insert_or_replace_def insert_absorb del: map_map)
next
  case False
  then show ?thesis by (simp add: insert_or_replace_def)
qed

lemma insert_or_replace_distinct:
  "distinct (map c_id rows) \<Longrightarrow> distinct (map c_id (insert_or_replace row rows))"
proof (cases "list_ex (\<lambda>r. c_id r = c_id row) rows")
  case True
  assume "distinct (map c_id rows)"
  then show ?thesis using True replace_ids[of row rows]
    by (simp add: insert_or_replace_def del: map_map)
next
  case False
  assume "distinct (map c_id rows)"
  then show ?thesis using False by (auto simp: insert_or_replace_def list_ex_iff)
qed


lemma insert_or_replace_other:
  "k \<noteq> c_id row \<Longrightarrow>
     filter (\<lambda>x. c_id x = k) (insert_or_replace row rows) = filter (\<lambda>x. c_id x = k) rows"
  by (simp add: insert_or_replace_def replace_filter_other)




text \<open>
  A ballot record of one election with one office and two vote tuples, as the content of
  a first-round ballot file of section df/97012/0001/0001.
\<close>

definition bu_two_votes :: BoletimUrna where
  "bu_two_votes =
     \<lparr>bu_uf = [], bu_municipio = 97012, bu_zona = 1, bu_secao = 1, local_votacao = None,
      modelo_urna = None, numero_serie = None, numero_interno = None, codigo_carga = None,
      tipo_urna = Some ''secao'', tipo_arquivo = None, versao_votacao = None,
      fase = OFICIAL, spec_version = V1, data_hora_emissao = None, hora_abertura = None,
      hora_encerramento = None, qtd_eleitores_lib_codigo = 10,
      qtd_eleitores_comp_biometrico = 240,
      resultados_por_eleicao =
        [eleicao_544\<lparr>resultados :=
           [cargo_presidente\<lparr>votos :=
              [\<lparr>tipo_voto = NOMINAL, quantidade = 200, codigo_votavel = Some 13,
                partido = Some 13, vt_hash = None, ordem_hash = None\<rparr>,
               \<lparr>tipo_voto = BRANCO, quantidade = 50, codigo_votavel = None,
                partido = None, vt_hash = None, ordem_hash = None\<rparr>]\<rparr>]\<rparr>],
      historico_correspondencias = None\<rparr>"

definition content_two_votes :: section_content where
  "content_two_votes =
     \<lparr>sc_bu_obj = Some bu_two_votes, sc_modelo = None, sc_issues = [],
      sc_log_timing = None, sc_log_events = None\<rparr>"

definition dir_0001 :: path where
  "dir_0001 = [''data'', ''raw'', ''df'', ''97012'', ''0001'', ''0001'']"

definition result_0001 :: analysis where
  "result_0001 =
     analyze_section content_two_votes dir_0001 (Some (dir_0001 @ [''o00406-9701200010001.bu'']))"

lemma result_0001_id: "secao_id_of result_0001 = ''1T/df/97012/0001/0001''"
  by code_simp




subsection \<open>The batch insert of the parallel rebuild (scripts/rebuild\_parallel.py)\<close>

text \<open>
  \<open>parse_section\<close> builds the rows of one section (an issue row gets its id only when it
  is inserted); \<open>insert_batch\<close> skips the items that carry an error and inserts the rows
  of the others table by table.
\<close>

record parsed_section =
  ps_secao_id :: string
  ps_secao :: secao_row
  ps_issues :: "(string \<times> Issue) list"
  ps_votos :: "voto_row list"
  ps_totais :: "totais_row list"

definition parse_section :: "analysis \<Rightarrow> parsed_section" where
  "parse_section result =
     \<lparr>ps_secao_id = secao_id_of result,
      ps_secao = secao_row_of result,
      ps_issues = map (\<lambda>issue. (secao_id_of result, issue)) (a_issues result),
      ps_votos = voto_rows_of result,
      ps_totais = totais_rows_of result\<rparr>"

definition insert_batch :: "store \<Rightarrow> (exn + parsed_section) list \<Rightarrow> store" where
  "insert_batch s batch =
     (let items = concat (map (\<lambda>item. case item of Inl e \<Rightarrow> [] | Inr p \<Rightarrow> [p]) batch);
          s1 = foldl (\<lambda>s row. s\<lparr>secoes := insert_or_replace row (secoes s)\<rparr>) s (map ps_secao items);
          s2 = foldl (\<lambda>s ir. insert_issue (fst ir) s (snd ir)) s1 (concat (map ps_issues items));
          s3 = s2\<lparr>votos_tab := votos_tab s2 @ concat (map ps_votos items)\<rparr>
      in s3\<lparr>totais_cargo := totais_cargo s3 @ concat (map ps_totais items)\<rparr>)"

lemma foldl_insert_issue_pairs:
  "foldl (\<lambda>s ir. insert_issue (fst ir) s (snd ir)) s (map (\<lambda>issue. (sid, issue)) is)
     = foldl (insert_issue sid) s is"
  by (induction "is" arbitrary: s) simp_all

lemma insert_batch_single:
  "insert_batch s [Inr (parse_section result)] = process_section result s"
proof -
  let ?sid = "secao_id_of result"
  let ?s2 = "foldl (insert_issue ?sid) (s\<lparr>secoes := insert_or_replace (secao_row_of result) (secoes s)\<rparr>)
               (a_issues result)"
  have "process_section result s =
      ?s2\<lparr>votos_tab := votos_tab ?s2 @ voto_rows_of result,
           totais_cargo := totais_cargo ?s2 @ totais_rows_of result\<rparr>"
    by (simp add: process_section_def Let_def foldl_eleicoes voto_rows_of_def totais_rows_of_def
        split: option.splits)
  then show ?thesis
    by (simp add: insert_batch_def parse_section_def Let_def foldl_insert_issue_pairs)
qed

section \<open>The ingestion pipeline (scripts/download\_and\_build.py)\<close>















subsection \<open>Resuming over a store that already holds sections\<close>



























section \<open>The snapshot for readers (scripts/download\_and\_build.py, create\_snapshot)\<close>

text \<open>
  \<open>PurePath.suffix\<close> and \<open>PurePath.with_suffix\<close> on the last component of a path: the
  suffix starts at the last dot of the name, unless that dot is the first or the last
  character of the name.
\<close>

definition path_suffix :: "string \<Rightarrow> string" where
  "path_suffix name =
     (let i = length name - length (takeWhile (\<lambda>c. c \<noteq> CHR ''.'') (rev name)) - 1 in
      if CHR ''.'' \<in> set name \<and> 0 < i \<and> i < length name - 1 then drop i name else [])"

definition with_suffix :: "path \<Rightarrow> string \<Rightarrow> path" where
  "with_suffix p suf =
     butlast p @ [take (length (last p) - length (path_suffix (last p))) (last p) @ suf]"

definition DB_DIR :: path where
  "DB_DIR = [''data'', ''db'']"

definition DEFAULT_DB_PATH :: path where
  "DEFAULT_DB_PATH = DB_DIR @ [''eleicoes_2022.duckdb'']"

definition SNAPSHOT_PATH :: path where
  "SNAPSHOT_PATH = butlast DEFAULT_DB_PATH @ [''eleicoes_2022_live.duckdb'']"

text \<open>
  A file holds a whole database image, or the beginning of one that a copy was writing.
  The world of \<open>create_snapshot\<close>: the database state held by the writer's connection, the
  files, the log, and two ghost fields: the primitive operations started, in order, and what
  a reader of \<open>SNAPSHOT_PATH\<close> finds after each change of the file system.
\<close>

datatype 'd dbfile = Whole 'd | Half 'd

fun content :: "'d dbfile \<Rightarrow> 'd" where
  "content (Whole d) = d"
| "content (Half d) = d"

datatype snap_step = Checkpoint | UnlinkTmp | CopyToTmp | RenameToSnapshot | UnlinkWal

datatype log_line = LogInfo string | LogWarning exn

record 'd snap_world =
  sn_conn :: 'd
  sn_files :: "path \<Rightarrow> 'd dbfile option"
  sn_log :: "log_line list"
  sn_steps :: "snap_step list"
  sn_published :: "'d dbfile option list"

text \<open>
  What the environment does to a primitive operation: it completes, it raises before
  changing anything, or (for the copy, the only operation that is not atomic) it raises
  after part of the destination was written.
\<close>

datatype outcome = Done | Fails exn | FailsMidway exn

fun raised :: "outcome \<Rightarrow> exn option" where
  "raised Done = None"
| "raised (Fails e) = Some e"
| "raised (FailsMidway e) = Some e"

definition started :: "snap_step \<Rightarrow> 'd snap_world \<Rightarrow> 'd snap_world" where
  "started k w = w\<lparr>sn_steps := sn_steps w @ [k]\<rparr>"

definition set_files :: "(path \<Rightarrow> 'd dbfile option) \<Rightarrow> 'd snap_world \<Rightarrow> 'd snap_world" where
  "set_files fs w = w\<lparr>sn_files := fs, sn_published := sn_published w @ [fs SNAPSHOT_PATH]\<rparr>"

text \<open>\<open>store._conn.execute("CHECKPOINT")\<close>: the state of the connection becomes the primary file.\<close>

definition checkpoint :: "(snap_step \<Rightarrow> outcome) \<Rightarrow> 'd snap_world \<Rightarrow> exn option \<times> 'd snap_world" where
  "checkpoint orc w =
     (let w1 = started Checkpoint w in
      case raised (orc Checkpoint) of
        Some e \<Rightarrow> (Some e, w1)
      | None \<Rightarrow> (None, set_files ((sn_files w1)(DEFAULT_DB_PATH \<mapsto> Whole (sn_conn w1))) w1))"

text \<open>\<open>p.unlink(missing_ok=True)\<close>.\<close>

definition unlink_missing_ok ::
  "snap_step \<Rightarrow> path \<Rightarrow> (snap_step \<Rightarrow> outcome) \<Rightarrow> 'd snap_world \<Rightarrow> exn option \<times> 'd snap_world" where
  "unlink_missing_ok k p orc w =
     (let w1 = started k w in
      case raised (orc k) of
        Some e \<Rightarrow> (Some e, w1)
      | None \<Rightarrow> (None, set_files ((sn_files w1)(p := None)) w1))"

text \<open>
  \<open>shutil.copy2(src, dst)\<close>: the destination is created and written piece by piece, so it
  is a partial file before it is a whole one, and stays partial when the copy raises midway.
\<close>

definition copy2 ::
  "path \<Rightarrow> path \<Rightarrow> (snap_step \<Rightarrow> outcome) \<Rightarrow> 'd snap_world \<Rightarrow> exn option \<times> 'd snap_world" where
  "copy2 src dst orc w =
     (let w1 = started CopyToTmp w in
      case sn_files w1 src of
        None \<Rightarrow> (Some FileNotFoundError, w1)
      | Some f \<Rightarrow>
          (case orc CopyToTmp of
             Fails e \<Rightarrow> (Some e, w1)
           | FailsMidway e \<Rightarrow> (Some e, set_files ((sn_files w1)(dst \<mapsto> Half (content f))) w1)
           | Done \<Rightarrow>
               (let w2 = set_files ((sn_files w1)(dst \<mapsto> Half (content f))) w1 in
                (None, set_files ((sn_files w2)(dst \<mapsto> f)) w2))))"

text \<open>
  \<open>src.rename(dst)\<close> within one directory: one change of the file system, which replaces
  the destination.
\<close>

definition rename ::
  "path \<Rightarrow> path \<Rightarrow> (snap_step \<Rightarrow> outcome) \<Rightarrow> 'd snap_world \<Rightarrow> exn option \<times> 'd snap_world" where
  "rename src dst orc w =
     (let w1 = started RenameToSnapshot w in
      case sn_files w1 src of
        None \<Rightarrow> (Some FileNotFoundError, w1)
      | Some f \<Rightarrow>
          (case raised (orc RenameToSnapshot) of
             Some e \<Rightarrow> (Some e, w1)
           | None \<Rightarrow> (None, set_files ((sn_files w1)(src := None, dst \<mapsto> f)) w1)))"

definition log_line :: "log_line \<Rightarrow> 'd snap_world \<Rightarrow> exn option \<times> 'd snap_world" where
  "log_line l w = (None, w\<lparr>sn_log := sn_log w @ [l]\<rparr>)"

text \<open>Sequencing of statements, and \<open>try: ... except Exception as e: ...\<close>.\<close>

definition and_then ::
  "exn option \<times> 'w \<Rightarrow> ('w \<Rightarrow> exn option \<times> 'w) \<Rightarrow> exn option \<times> 'w" where
  "and_then r f = (case r of (Some e, w) \<Rightarrow> (Some e, w) | (None, w) \<Rightarrow> f w)"

definition try_except ::
  "exn option \<times> 'w \<Rightarrow> (exn \<Rightarrow> 'w \<Rightarrow> exn option \<times> 'w) \<Rightarrow> exn option \<times> 'w" where
  "try_except r h = (case r of (Some e, w) \<Rightarrow> h e w | (None, w) \<Rightarrow> (None, w))"

definition create_snapshot :: "(snap_step \<Rightarrow> outcome) \<Rightarrow> 'd snap_world \<Rightarrow> exn option \<times> 'd snap_world" where
  "create_snapshot orc w =
     try_except
       (let tmp_snap = with_suffix SNAPSHOT_PATH ''.duckdb.tmp'';
            wal = with_suffix SNAPSHOT_PATH ''.duckdb.wal'' in
        and_then (and_then (and_then (and_then (and_then
          (checkpoint orc w)
          (unlink_missing_ok UnlinkTmp tmp_snap orc))
          (copy2 DEFAULT_DB_PATH tmp_snap orc))
          (rename tmp_snap SNAPSHOT_PATH orc))
          (unlink_missing_ok UnlinkWal wal orc))
          (log_line (LogInfo (''Snapshot atualizado: '' @ last SNAPSHOT_PATH))))
       (\<lambda>e. log_line (LogWarning e))"

text \<open>
  The operations of a snapshot in the order of the code, and the first of them that the
  environment makes fail.
\<close>

definition snapshot_steps :: "snap_step list" where
  "snapshot_steps = [Checkpoint, UnlinkTmp, CopyToTmp, RenameToSnapshot, UnlinkWal]"

definition first_failure :: "(snap_step \<Rightarrow> outcome) \<Rightarrow> (snap_step \<times> exn) option" where
  "first_failure orc =
     (case dropWhile (\<lambda>k. orc k = Done) snapshot_steps of
        [] \<Rightarrow> None
      | k # ks \<Rightarrow> map_option (\<lambda>e. (k, e)) (raised (orc k)))"

lemma snapshot_paths_distinct:
  "SNAPSHOT_PATH \<noteq> with_suffix SNAPSHOT_PATH ''.duckdb.tmp''"
  "SNAPSHOT_PATH \<noteq> with_suffix SNAPSHOT_PATH ''.duckdb.wal''"
  "DEFAULT_DB_PATH \<noteq> with_suffix SNAPSHOT_PATH ''.duckdb.tmp''"
  "DEFAULT_DB_PATH \<noteq> SNAPSHOT_PATH"
  "SNAPSHOT_PATH \<noteq> DEFAULT_DB_PATH"
  "with_suffix SNAPSHOT_PATH ''.duckdb.tmp'' \<noteq> SNAPSHOT_PATH"
  "with_suffix SNAPSHOT_PATH ''.duckdb.wal'' \<noteq> SNAPSHOT_PATH"
  "with_suffix SNAPSHOT_PATH ''.duckdb.tmp'' \<noteq> DEFAULT_DB_PATH"
  "with_suffix SNAPSHOT_PATH ''.duckdb.wal'' \<noteq> DEFAULT_DB_PATH"
  "with_suffix SNAPSHOT_PATH ''.duckdb.wal'' \<noteq> with_suffix SNAPSHOT_PATH ''.duckdb.tmp''"
  "with_suffix SNAPSHOT_PATH ''.duckdb.tmp'' \<noteq> with_suffix SNAPSHOT_PATH ''.duckdb.wal''"
  "DEFAULT_DB_PATH \<noteq> with_suffix SNAPSHOT_PATH ''.duckdb.wal''"
  by code_simp+

lemma snapshot_name: "last SNAPSHOT_PATH = ''eleicoes_2022_live.duckdb''"
  by code_simp

lemma old_then_new:
  assumes "list_all (\<lambda>z. z = y) (dropWhile (\<lambda>z. z = x) xs)"
  shows "\<exists>a b. xs = replicate a x @ replicate b y"
proof -
  have t: "takeWhile (\<lambda>z. z = x) xs = replicate (length (takeWhile (\<lambda>z. z = x) xs)) x"
    by (rule replicate_length_same[symmetric]) (auto dest: set_takeWhileD)
  have d: "dropWhile (\<lambda>z. z = x) xs = replicate (length (dropWhile (\<lambda>z. z = x) xs)) y"
    using assms by (intro replicate_length_same[symmetric]) (simp add: list_all_iff)
  have "xs = takeWhile (\<lambda>z. z = x) xs @ dropWhile (\<lambda>z. z = x) xs" by simp
  with t d show ?thesis by metis
qed

lemmas snapshot_unfold =
  create_snapshot_def try_except_def and_then_def checkpoint_def
  unlink_missing_ok_def copy2_def rename_def log_line_def started_def set_files_def
  snapshot_paths_distinct snapshot_name first_failure_def snapshot_steps_def Let_def

lemma create_snapshot_returns: "fst (create_snapshot orc w) = None"
  by (cases "orc Checkpoint"; cases "orc UnlinkTmp"; cases "orc CopyToTmp";
      cases "orc RenameToSnapshot"; cases "orc UnlinkWal")
    (simp_all add: snapshot_unfold)


lemma create_snapshot_steps:
  "sn_steps (snd (create_snapshot orc w)) =
       sn_steps w @ (case first_failure orc of
                       None \<Rightarrow> snapshot_steps
                     | Some (k, e) \<Rightarrow> takeWhile (\<lambda>k. orc k = Done) snapshot_steps @ [k])"
  by (cases "orc Checkpoint"; cases "orc UnlinkTmp"; cases "orc CopyToTmp";
      cases "orc RenameToSnapshot"; cases "orc UnlinkWal")
    (simp_all add: snapshot_unfold)

lemma create_snapshot_log:
  "sn_log (snd (create_snapshot orc w)) =
       sn_log w @ [case first_failure orc of
                     None \<Rightarrow> LogInfo ''Snapshot atualizado: eleicoes_2022_live.duckdb''
                   | Some (k, e) \<Rightarrow> LogWarning e]"
  by (cases "orc Checkpoint"; cases "orc UnlinkTmp"; cases "orc CopyToTmp";
      cases "orc RenameToSnapshot"; cases "orc UnlinkWal")
    (simp_all add: snapshot_unfold)

lemma create_snapshot_published:
  "\<exists>xs. sn_published (snd (create_snapshot orc w)) = sn_published w @ xs
     \<and> list_all (\<lambda>z. z = Some (Whole (sn_conn w)))
          (dropWhile (\<lambda>z. z = sn_files w SNAPSHOT_PATH) xs)"
  by (cases "orc Checkpoint"; cases "orc UnlinkTmp"; cases "orc CopyToTmp";
      cases "orc RenameToSnapshot"; cases "orc UnlinkWal")
    (simp_all add: snapshot_unfold)

lemma create_snapshot_files:
  "sn_files (snd (create_snapshot orc w)) SNAPSHOT_PATH =
       (if orc Checkpoint = Done \<and> orc UnlinkTmp = Done \<and> orc CopyToTmp = Done
           \<and> orc RenameToSnapshot = Done
        then Some (Whole (sn_conn w)) else sn_files w SNAPSHOT_PATH)"
  "sn_files (snd (create_snapshot orc w)) (with_suffix SNAPSHOT_PATH ''.duckdb.wal'') =
       (if orc Checkpoint = Done \<and> orc UnlinkTmp = Done \<and> orc CopyToTmp = Done
           \<and> orc RenameToSnapshot = Done \<and> orc UnlinkWal = Done
        then None else sn_files w (with_suffix SNAPSHOT_PATH ''.duckdb.wal''))"
  "sn_conn (snd (create_snapshot orc w)) = sn_conn w"
  by (cases "orc Checkpoint"; cases "orc UnlinkTmp"; cases "orc CopyToTmp";
      cases "orc RenameToSnapshot"; cases "orc UnlinkWal";
      simp add: snapshot_unfold)+


text \<open>
  Claim C3 (snapshot).  \<open>create_snapshot\<close> returns normally whatever the environment does
  to its operations.  It starts, in this order, the checkpoint, the removal of a left-over
  temporary file, the copy of the primary file to the temporary path, the rename of the
  temporary path to the published path and the removal of the write-ahead log of the
  snapshot, up to and including the first operation that fails; it logs one line, the
  warning with the exception of that operation, or the information line when none failed.
  During the call a reader of the published path finds what it held before, and from the
  rename on the whole image of the state of the connection: never a partial file.  At the
  end the published path holds the new image when the first four operations completed and
  is unchanged otherwise, and the write-ahead log of the snapshot is absent when all five
  completed.
\<close>

theorem snapshot_steps_in_order_and_contained:
  "fst (create_snapshot orc w) = None
   \<and> sn_steps (snd (create_snapshot orc w)) =
       sn_steps w @ (case first_failure orc of
                       None \<Rightarrow> snapshot_steps
                     | Some (k, e) \<Rightarrow> takeWhile (\<lambda>k. orc k = Done) snapshot_steps @ [k])
   \<and> sn_log (snd (create_snapshot orc w)) =
       sn_log w @ [case first_failure orc of
                     None \<Rightarrow> LogInfo ''Snapshot atualizado: eleicoes_2022_live.duckdb''
                   | Some (k, e) \<Rightarrow> LogWarning e]
   \<and> (\<exists>a b. sn_published (snd (create_snapshot orc w)) =
         sn_published w @ replicate a (sn_files w SNAPSHOT_PATH)
           @ replicate b (Some (Whole (sn_conn w))))
   \<and> sn_files (snd (create_snapshot orc w)) SNAPSHOT_PATH =
       (if orc Checkpoint = Done \<and> orc UnlinkTmp = Done \<and> orc CopyToTmp = Done
           \<and> orc RenameToSnapshot = Done
        then Some (Whole (sn_conn w)) else sn_files w SNAPSHOT_PATH)
   \<and> sn_files (snd (create_snapshot orc w)) (with_suffix SNAPSHOT_PATH ''.duckdb.wal'') =
       (if orc Checkpoint = Done \<and> orc UnlinkTmp = Done \<and> orc CopyToTmp = Done
           \<and> orc RenameToSnapshot = Done \<and> orc UnlinkWal = Done
        then None else sn_files w (with_suffix SNAPSHOT_PATH ''.duckdb.wal''))
   \<and> sn_conn (snd (create_snapshot orc w)) = sn_conn w"
proof -
  from create_snapshot_published[of orc w] obtain xs where
    p: "sn_published (snd (create_snapshot orc w)) = sn_published w @ xs"
    and q: "list_all (\<lambda>z. z = Some (Whole (sn_conn w)))
          (dropWhile (\<lambda>z. z = sn_files w SNAPSHOT_PATH) xs)"
    by blast
  from old_then_new[OF q] obtain a b where
    "xs = replicate a (sn_files w SNAPSHOT_PATH) @ replicate b (Some (Whole (sn_conn w)))"
    by blast
  with p have "\<exists>a b. sn_published (snd (create_snapshot orc w)) =
         sn_published w @ replicate a (sn_files w SNAPSHOT_PATH)
           @ replicate b (Some (Whole (sn_conn w)))"
    by blast
  then show ?thesis
    using create_snapshot_returns[of orc w] create_snapshot_steps[of orc w]
      create_snapshot_log[of orc w] create_snapshot_files[of orc w]
    by blast
qed

text \<open>
  A run in which the copy breaks midway, over a published snapshot of the state 1 while the
  connection holds the state 2.
\<close>

definition copy_breaks :: "snap_step \<Rightarrow> outcome" where
  "copy_breaks k = (if k = CopyToTmp then FailsMidway OtherError else Done)"

definition snap_world0 :: "nat snap_world" where
  "snap_world0 =
     \<lparr>sn_conn = 2, sn_files = Map.empty(SNAPSHOT_PATH \<mapsto> Whole 1), sn_log = [],
      sn_steps = [], sn_published = []\<rparr>"

theorem snapshot_steps_in_order_and_contained_witness:
  "fst (create_snapshot copy_breaks snap_world0) = None
   \<and> sn_steps (snd (create_snapshot copy_breaks snap_world0)) = [Checkpoint, UnlinkTmp, CopyToTmp]
   \<and> sn_log (snd (create_snapshot copy_breaks snap_world0)) = [LogWarning OtherError]
   \<and> sn_files (snd (create_snapshot copy_breaks snap_world0)) SNAPSHOT_PATH = Some (Whole 1)"
  using snapshot_steps_in_order_and_contained[of copy_breaks snap_world0]
  by (simp add: first_failure_def snapshot_steps_def copy_breaks_def snap_world0_def)

end
